theory Spec2Isabelle
  imports Main "HOL-Library.Sublist"
begin

section \<open>Syntax trees\<close>

text \<open>
  The analyzers consume the concrete syntax tree of an external parsing library. A node
  exposes its kind (\<open>type\<close>), the offsets of its source slice (\<open>startIndex\<close>,
  \<open>endIndex\<close>), its start and end positions (row and column, both unsigned in the
  library) and its ordered children.
\<close>

datatype point = Point (row: nat) (column: nat)

datatype node = Node (type: string) (startIndex: nat) (endIndex: nat)
  (startPosition: point) (endPosition: point) (children: "node list")

text \<open>
  \<open>node.parent\<close> is modelled by the path the walk came down: the ancestors of the
  current node, nearest first, each paired with the index at which the path leaves it.
  For a node with context \<open>(p, i) # rest\<close>, \<open>node.parent\<close> is \<open>p\<close> and
  \<open>p.children.indexOf(node)\<close> is \<open>i\<close>; the root has the empty context.
\<close>

type_synonym ancestors = "(node \<times> nat) list"

section \<open>Strings and regular expressions of the host language\<close>

text \<open>\<open>s.substring(a, b)\<close>: the arguments are swapped when \<open>a > b\<close> and clamped to the length.\<close>

definition substring :: "string \<Rightarrow> nat \<Rightarrow> nat \<Rightarrow> string" where
  "substring s a b = take (max a b - min a b) (drop (min a b) s)"

text \<open>\<open>s.includes(pat)\<close>\<close>

fun includes_str :: "string \<Rightarrow> string \<Rightarrow> bool" where
  "includes_str [] pat = (pat = [])"
| "includes_str (c # cs) pat = (prefix pat (c # cs) \<or> includes_str cs pat)"

text \<open>
  The regular expressions of the source use character classes, literals, \<open>*\<close> and
  \<open>+\<close> over one class, the word boundary \<open>\b\<close> and one top-level alternation. A
  pattern is a list of alternatives, each a sequence of items.
\<close>

datatype char_class = Word | Space | Lit char | NoneOf "char list"

definition is_word_char :: "char \<Rightarrow> bool" where
  "is_word_char c = (c \<in> set ''abcdefghijklmnopqrstuvwxyzABCDEFGHIJKLMNOPQRSTUVWXYZ0123456789_'')"

definition is_space_char :: "char \<Rightarrow> bool" where
  "is_space_char c = (c \<in> set [CHR 0x09, CHR 0x0A, CHR 0x0B, CHR 0x0C, CHR 0x0D, CHR 0x20, CHR 0xA0])"

fun in_class :: "char_class \<Rightarrow> char \<Rightarrow> bool" where
  "in_class Word c = is_word_char c"
| "in_class Space c = is_space_char c"
| "in_class (Lit l) c = (c = l)"
| "in_class (NoneOf ls) c = (c \<notin> set ls)"

datatype regex_item = One char_class | Star char_class | Plus char_class | WordBoundary

type_synonym regex = "regex_item list list"

definition word_opt :: "char option \<Rightarrow> bool" where
  "word_opt c = (case c of None \<Rightarrow> False | Some x \<Rightarrow> is_word_char x)"

text \<open>
  \<open>match_here items prev s\<close> matches the sequence at the start of \<open>s\<close>, where
  \<open>prev\<close> is the character before it; it returns the last character consumed and the
  rest of the string. Quantifiers are greedy and backtrack.
\<close>

fun match_here :: "regex_item list \<Rightarrow> char option \<Rightarrow> string \<Rightarrow> (char option \<times> string) option" where
  "match_here [] prev s = Some (prev, s)"
| "match_here (One c # r) prev [] = None"
| "match_here (One c # r) prev (x # xs) =
     (if in_class c x then match_here r (Some x) xs else None)"
| "match_here (Star c # r) prev [] = match_here r prev []"
| "match_here (Star c # r) prev (x # xs) =
     (if in_class c x then
        (case match_here (Star c # r) (Some x) xs of
           Some m \<Rightarrow> Some m
         | None \<Rightarrow> match_here r prev (x # xs))
      else match_here r prev (x # xs))"
| "match_here (Plus c # r) prev [] = None"
| "match_here (Plus c # r) prev (x # xs) =
     (if in_class c x then match_here (Star c # r) (Some x) xs else None)"
| "match_here (WordBoundary # r) prev s =
     (if word_opt prev \<noteq> word_opt (case s of [] \<Rightarrow> None | x # _ \<Rightarrow> Some x)
      then match_here r prev s else None)"

fun match_alternatives :: "regex \<Rightarrow> char option \<Rightarrow> string \<Rightarrow> (char option \<times> string) option" where
  "match_alternatives [] prev s = None"
| "match_alternatives (a # as) prev s =
     (case match_here a prev s of Some m \<Rightarrow> Some m | None \<Rightarrow> match_alternatives as prev s)"

text \<open>\<open>regex.test(s)\<close> for a pattern without flags: a match at some offset.\<close>

fun regex_search :: "regex \<Rightarrow> char option \<Rightarrow> string \<Rightarrow> bool" where
  "regex_search re prev [] = (match_alternatives re prev [] \<noteq> None)"
| "regex_search re prev (x # xs) =
     (match_alternatives re prev (x # xs) \<noteq> None \<or> regex_search re (Some x) xs)"

definition regex_test :: "regex \<Rightarrow> string \<Rightarrow> bool" where
  "regex_test re s = regex_search re None s"

text \<open>
  \<open>s.match(regex)\<close> with the \<open>g\<close> flag: the matches from left to right, each search
  resuming where the last match ended (one character further after an empty match). The
  model returns their number, 0 standing for \<open>null\<close>.
\<close>

function regex_match_count :: "regex \<Rightarrow> char option \<Rightarrow> string \<Rightarrow> nat" where
  "regex_match_count re prev s =
     (case match_alternatives re prev s of
        Some (prev', rest) \<Rightarrow>
          (if length rest < length s then 1 + regex_match_count re prev' rest
           else (case s of [] \<Rightarrow> 1 | x # xs \<Rightarrow> 1 + regex_match_count re (Some x) xs))
      | None \<Rightarrow> (case s of [] \<Rightarrow> 0 | x # xs \<Rightarrow> regex_match_count re (Some x) xs))"
  by pat_completeness auto
termination
  by (relation "measure (\<lambda>(re, prev, s). length s)") auto

definition lits :: "string \<Rightarrow> regex_item list" where
  "lits s = map (\<lambda>c. One (Lit c)) s"

text \<open>The patterns of the source, in the order in which they first appear.\<close>

definition re_if :: regex where \<comment> \<open>\<open>/\bif\s*\(/\<close>\<close>
  "re_if = [WordBoundary # lits ''if'' @ [Star Space, One (Lit CHR ''('')]]"

definition re_while :: regex where \<comment> \<open>\<open>/\bwhile\s*\(/\<close>\<close>
  "re_while = [WordBoundary # lits ''while'' @ [Star Space, One (Lit CHR ''('')]]"

definition re_for :: regex where \<comment> \<open>\<open>/\bfor\s*\(/\<close>\<close>
  "re_for = [WordBoundary # lits ''for'' @ [Star Space, One (Lit CHR ''('')]]"

definition re_foreach :: regex where \<comment> \<open>\<open>/\bforeach\s*\(/\<close>\<close>
  "re_foreach = [WordBoundary # lits ''foreach'' @ [Star Space, One (Lit CHR ''('')]]"

definition re_logical :: regex where \<comment> \<open>\<open>/&&|\|\|/\<close>\<close>
  "re_logical = [lits ''&&'', lits ''||'']"

definition re_ternary :: regex where \<comment> \<open>\<open>/\?[^?]*:/\<close>\<close>
  "re_ternary = [[One (Lit CHR ''?''), Star (NoneOf ''?''), One (Lit CHR '':'')]]"

definition re_question :: regex where \<comment> \<open>\<open>/\?/\<close>\<close>
  "re_question = [[One (Lit CHR ''?'')]]"

definition re_try :: regex where \<comment> \<open>\<open>/\btry\s*\{/\<close>\<close>
  "re_try = [WordBoundary # lits ''try'' @ [Star Space, One (Lit CHR ''{'')]]"

definition re_catch :: regex where \<comment> \<open>\<open>/\bcatch\s*\(/\<close>\<close>
  "re_catch = [WordBoundary # lits ''catch'' @ [Star Space, One (Lit CHR ''('')]]"

definition re_ternary_decl :: regex where \<comment> \<open>\<open>/\w+\s*\?\s*[^?]+\s*:\s*[^:;]+/\<close>\<close>
  "re_ternary_decl =
     [[Plus Word, Star Space, One (Lit CHR ''?''), Star Space, Plus (NoneOf ''?''), Star Space,
       One (Lit CHR '':''), Star Space, Plus (NoneOf '':;'')]]"

section \<open>Results\<close>

text \<open>
  The three detail interfaces of the source (of the two language analyzers and of the
  factory) have the same fields, and so have the three function interfaces; one record
  stands for each. Counters are host numbers that the code increments and decrements
  (\<open>int\<close>); positions come from the tree (\<open>nat\<close>).
\<close>

record MetricsDetail =
  increment :: int
  reason :: string
  line :: nat
  column :: nat
  nesting :: int

record FunctionMetrics =
  name :: string
  complexity :: int
  details :: "MetricsDetail list"
  startLine :: nat
  endLine :: nat
  startColumn :: nat
  endColumn :: nat

text \<open>The mutable fields of an analyzer instance that the walk reads and writes.\<close>

record analyzer_state =
  this_nesting :: int
  this_complexity :: int
  this_details :: "MetricsDetail list"

text \<open>\<open>xs.find(p)\<close>, together with the index of the element found.\<close>

fun find_from :: "nat \<Rightarrow> ('a \<Rightarrow> bool) \<Rightarrow> 'a list \<Rightarrow> (nat \<times> 'a) option" where
  "find_from i p [] = None"
| "find_from i p (x # xs) = (if p x then Some (i, x) else find_from (Suc i) p xs)"

lemma child_size: "c \<in> set (children n) \<Longrightarrow> size c < size n"
  by (cases n) (auto simp: less_Suc_eq_le size_list_estimation')

lemma enumerate_child_size: "(i, c) \<in> set (enumerate k (children n)) \<Longrightarrow> size c < size n"
  by (auto simp: in_set_enumerate_eq intro!: child_size)

section \<open>The C# analyzer\<close>

definition CSharp_isFunctionDeclaration :: "node \<Rightarrow> bool" where
  "CSharp_isFunctionDeclaration node =
     (type node = ''method_declaration'' \<or>
      type node = ''constructor_declaration'' \<or>
      type node = ''destructor_declaration'' \<or>
      type node = ''operator_declaration'' \<or>
      type node = ''conversion_operator_declaration'' \<or>
      type node = ''accessor_declaration'' \<or>
      type node = ''local_function_statement'')"

definition CSharp_getFunctionName :: "string \<Rightarrow> ancestors \<Rightarrow> node \<Rightarrow> string" where
  "CSharp_getFunctionName sourceText ctx node =
     (if type node = ''constructor_declaration'' then
        (case find (\<lambda>(parent, i). type parent = ''class_declaration'') ctx of
           Some (parent, i) \<Rightarrow>
             (case find (\<lambda>child. type child = ''identifier'') (children parent) of
                Some classNameNode \<Rightarrow>
                  substring sourceText (startIndex classNameNode) (endIndex classNameNode)
                    @ '' (constructor)''
              | None \<Rightarrow> ''<constructor>'')
         | None \<Rightarrow> ''<constructor>'')
      else if type node = ''destructor_declaration'' then ''~<destructor>''
      else
        (case find (\<lambda>child. type child = ''identifier'') (children node) of
           Some nameNode \<Rightarrow> substring sourceText (startIndex nameNode) (endIndex nameNode)
         | None \<Rightarrow> ''<anonymous>''))"

definition CSharp_createSyntheticBodyFromPreprocessor :: "node \<Rightarrow> node" where
  "CSharp_createSyntheticBodyFromPreprocessor preprocessorNode = preprocessorNode"

text \<open>
  The loop of \<open>getFunctionBody\<close> over the siblings that follow the method: \<open>i\<close> is the
  index of the head of the list among the parent's children.
\<close>

fun CSharp_findBodyInSiblings :: "nat \<Rightarrow> node list \<Rightarrow> (nat \<times> node) option" where
  "CSharp_findBodyInSiblings i [] = None"
| "CSharp_findBodyInSiblings i (sibling # rest) =
     (if type sibling = ''preproc_if''
      then Some (i, CSharp_createSyntheticBodyFromPreprocessor sibling)
      else if CSharp_isFunctionDeclaration sibling \<or>
              type sibling = ''class_declaration'' \<or>
              type sibling = ''interface_declaration''
      then None
      else CSharp_findBodyInSiblings (Suc i) rest)"

text \<open>The body is returned with its own context: its parent and its index there.\<close>

definition CSharp_getFunctionBody :: "ancestors \<Rightarrow> node \<Rightarrow> (ancestors \<times> node) option" where
  "CSharp_getFunctionBody ctx node =
     (case find_from 0 (\<lambda>child. type child = ''block'' \<or> type child = ''arrow_expression_clause'')
             (children node) of
        Some (i, directBody) \<Rightarrow> Some ((node, i) # ctx, directBody)
      | None \<Rightarrow>
          (if children node \<noteq> [] \<and> type (last (children node)) = '';'' then
             (case ctx of
                [] \<Rightarrow> None
              | (parent, methodIndex) # up \<Rightarrow>
                  (case CSharp_findBodyInSiblings (methodIndex + 1)
                          (drop (methodIndex + 1) (children parent)) of
                     Some (i, body) \<Rightarrow> Some ((parent, i) # up, body)
                   | None \<Rightarrow> None))
           else None))"

definition CSharp_hasMatchingColonInSiblings :: "string \<Rightarrow> ancestors \<Rightarrow> node \<Rightarrow> bool" where
  "CSharp_hasMatchingColonInSiblings sourceText ctx errorNode =
     (case ctx of
        [] \<Rightarrow> False
      | (parent, errorIndex) # up \<Rightarrow>
          list_ex
            (\<lambda>i. let sibling = children parent ! i;
                      siblingText = substring sourceText (startIndex sibling) (endIndex sibling)
                  in includes_str siblingText '':'' \<and> \<not> includes_str siblingText ''::'')
            [errorIndex + 1 ..< min (errorIndex + 3) (length (children parent))])"

definition CSharp_getComplexityFromErrorNode :: "string \<Rightarrow> ancestors \<Rightarrow> node \<Rightarrow> int" where
  "CSharp_getComplexityFromErrorNode sourceText ctx errorNode =
     (let text = substring sourceText (startIndex errorNode) (endIndex errorNode);
          c = 0;
          c = (if regex_test re_if text then c + 1 else c);
          c = (if regex_test re_while text then c + 1 else c);
          c = (if regex_test re_for text then c + 1 else c);
          c = (if regex_test re_foreach text then c + 1 else c);
          c = c + int (regex_match_count re_logical None text);
          c = (if regex_test re_ternary text \<or>
                  (regex_test re_question text \<and>
                   CSharp_hasMatchingColonInSiblings sourceText ctx errorNode)
               then c + 1 else c);
          c = (if regex_test re_try text then c + 1 else c);
          c = (if regex_test re_catch text then c + 1 else c)
      in c)"

definition CSharp_isInPreprocessorBlock :: "ancestors \<Rightarrow> node \<Rightarrow> bool" where
  "CSharp_isInPreprocessorBlock ctx node =
     list_ex (\<lambda>(parent, i). prefix ''preproc_'' (type parent)) ctx"

definition CSharp_getComplexityFromMalformedDeclaration :: "string \<Rightarrow> ancestors \<Rightarrow> node \<Rightarrow> int" where
  "CSharp_getComplexityFromMalformedDeclaration sourceText ctx declarationNode =
     (if \<not> CSharp_isInPreprocessorBlock ctx declarationNode then 0
      else
        (let text = substring sourceText (startIndex declarationNode) (endIndex declarationNode);
             c = 0;
             c = (if regex_test re_ternary_decl text then c + 1 else c);
             c = c + int (regex_match_count re_logical None text)
         in c))"

definition CSharp_getComplexityReasonFromErrorNode :: "string \<Rightarrow> ancestors \<Rightarrow> node \<Rightarrow> string" where
  "CSharp_getComplexityReasonFromErrorNode sourceText ctx errorNode =
     (let text = substring sourceText (startIndex errorNode) (endIndex errorNode)
      in if regex_test re_if text then ''if statement (in preprocessor block)''
         else if regex_test re_while text then ''while loop (in preprocessor block)''
         else if regex_test re_for text then ''for loop (in preprocessor block)''
         else if regex_test re_foreach text then ''foreach loop (in preprocessor block)''
         else if regex_test re_logical text then ''logical operator (in preprocessor block)''
         else if regex_test re_ternary text \<or>
                 (regex_test re_question text \<and>
                  CSharp_hasMatchingColonInSiblings sourceText ctx errorNode)
              then ''ternary operator (in preprocessor block)''
         else if regex_test re_try text then ''try statement (in preprocessor block)''
         else if regex_test re_catch text then ''catch clause (in preprocessor block)''
         else ''complexity pattern (in preprocessor block)'')"

definition CSharp_getComplexityReasonFromMalformedDeclaration ::
    "string \<Rightarrow> ancestors \<Rightarrow> node \<Rightarrow> string" where
  "CSharp_getComplexityReasonFromMalformedDeclaration sourceText ctx declarationNode =
     (if \<not> CSharp_isInPreprocessorBlock ctx declarationNode then ''complexity in declaration''
      else
        (let text = substring sourceText (startIndex declarationNode) (endIndex declarationNode)
         in if regex_test re_ternary_decl text then ''ternary operator (in preprocessor block)''
            else if regex_test re_logical text then ''logical operator (in preprocessor block)''
            else ''complexity pattern in declaration (preprocessor block)''))"

definition CSharp_getBinaryOperator :: "string \<Rightarrow> node \<Rightarrow> string option" where
  "CSharp_getBinaryOperator sourceText node =
     (case find (\<lambda>child. type child = ''&&'' \<or> type child = ''||'' \<or> type child = ''binary_operator'')
             (children node) of
        Some operatorNode \<Rightarrow>
          Some (substring sourceText (startIndex operatorNode) (endIndex operatorNode))
      | None \<Rightarrow> None)"

text \<open>The second argument after the context is \<open>this.nesting\<close>, which the rule table reads.\<close>

definition CSharp_getComplexityIncrement :: "string \<Rightarrow> ancestors \<Rightarrow> node \<Rightarrow> int \<Rightarrow> int" where
  "CSharp_getComplexityIncrement sourceText ctx node nesting_now =
     (if type node = ''if_statement'' \<or> type node = ''while_statement'' \<or>
         type node = ''for_statement'' \<or> type node = ''foreach_statement'' \<or>
         type node = ''switch_statement'' \<or> type node = ''switch_expression'' then 1
      else if type node = ''try_statement'' \<or> type node = ''catch_clause'' then 1
      else if type node = ''binary_expression'' then
        (let operator = CSharp_getBinaryOperator sourceText node
         in if operator = Some ''&&'' \<or> operator = Some ''||'' then 1 else 0)
      else if type node = ''conditional_expression'' then 1
      else if type node = ''lambda_expression'' \<or> type node = ''anonymous_method_expression''
        then (if nesting_now > 0 then 1 else 0)
      else if type node = ''continue_statement'' \<or> type node = ''break_statement''
        then (if nesting_now > 0 then 1 else 0)
      else if type node = ''goto_statement'' then 1
      else if type node = ''ERROR'' then CSharp_getComplexityFromErrorNode sourceText ctx node
      else if type node = ''field_declaration'' \<or> type node = ''variable_declaration''
        then CSharp_getComplexityFromMalformedDeclaration sourceText ctx node
      else 0)"

text \<open>A template literal prints the operator \<open>null\<close> as the text null.\<close>

definition CSharp_getComplexityReason :: "string \<Rightarrow> ancestors \<Rightarrow> node \<Rightarrow> string" where
  "CSharp_getComplexityReason sourceText ctx node =
     (if type node = ''if_statement'' then ''if statement''
      else if type node = ''while_statement'' then ''while loop''
      else if type node = ''for_statement'' then ''for loop''
      else if type node = ''foreach_statement'' then ''foreach loop''
      else if type node = ''switch_statement'' then ''switch statement''
      else if type node = ''switch_expression'' then ''switch expression''
      else if type node = ''try_statement'' then ''try statement''
      else if type node = ''catch_clause'' then ''catch clause''
      else if type node = ''binary_expression'' then
        (let operator = CSharp_getBinaryOperator sourceText node
         in ''binary '' @ (case operator of None \<Rightarrow> ''null'' | Some s \<Rightarrow> s) @ '' operator'')
      else if type node = ''conditional_expression'' then ''ternary operator''
      else if type node = ''lambda_expression'' then ''lambda expression (nested)''
      else if type node = ''anonymous_method_expression'' then ''anonymous method (nested)''
      else if type node = ''continue_statement'' then ''continue statement (nested)''
      else if type node = ''break_statement'' then ''break statement (nested)''
      else if type node = ''goto_statement'' then ''goto statement''
      else if type node = ''ERROR'' then CSharp_getComplexityReasonFromErrorNode sourceText ctx node
      else if type node = ''field_declaration'' \<or> type node = ''variable_declaration''
        then CSharp_getComplexityReasonFromMalformedDeclaration sourceText ctx node
      else ''unknown complexity source'')"

definition CSharp_increasesNesting :: "node \<Rightarrow> bool" where
  "CSharp_increasesNesting node =
     (type node = ''if_statement'' \<or>
      type node = ''while_statement'' \<or>
      type node = ''for_statement'' \<or>
      type node = ''foreach_statement'' \<or>
      type node = ''switch_statement'' \<or>
      type node = ''try_statement'' \<or>
      type node = ''catch_clause'' \<or>
      type node = ''lambda_expression'' \<or>
      type node = ''anonymous_method_expression'')"

text \<open>
  \<open>visit\<close>: the state is threaded through the walk; both branches of the source run the
  same loop over the children, the first between \<open>this.nesting++\<close> and \<open>this.nesting--\<close>.
\<close>

function CSharp_visit :: "string \<Rightarrow> ancestors \<Rightarrow> node \<Rightarrow> analyzer_state \<Rightarrow> analyzer_state" where
  "CSharp_visit sourceText ctx node st =
     (let baseIncrement = CSharp_getComplexityIncrement sourceText ctx node (this_nesting st);
          st = (if baseIncrement > 0 then
                  (let increment = baseIncrement + this_nesting st;
                       reason = CSharp_getComplexityReason sourceText ctx node
                   in st\<lparr>this_complexity := this_complexity st + increment,
                         this_details := this_details st @
                           [\<lparr>increment = increment, reason = reason,
                             line = row (startPosition node),
                             column = point.column (startPosition node),
                             nesting = this_nesting st\<rparr>]\<rparr>)
                else st)
      in if CSharp_increasesNesting node then
           (let st = st\<lparr>this_nesting := this_nesting st + 1\<rparr>;
                st = fold (\<lambda>(i, child) s.
                             if \<not> CSharp_isFunctionDeclaration child
                             then CSharp_visit sourceText ((node, i) # ctx) child s else s)
                       (enumerate 0 (children node)) st
            in st\<lparr>this_nesting := this_nesting st - 1\<rparr>)
         else
           fold (\<lambda>(i, child) s.
                   if \<not> CSharp_isFunctionDeclaration child
                   then CSharp_visit sourceText ((node, i) # ctx) child s else s)
             (enumerate 0 (children node)) st)"
  by pat_completeness auto
termination
  by (relation "measure (\<lambda>(sourceText, ctx, node, st). size node)")
     (auto simp: enumerate_child_size)

declare CSharp_visit.simps [simp del]

text \<open>
  \<open>analyzeFunction\<close> resets the three fields, so the walk starts from the state below;
  what it leaves in the fields is read by nobody before the next reset.
\<close>

definition initial_state :: analyzer_state where
  "initial_state = \<lparr>this_nesting = 0, this_complexity = 0, this_details = []\<rparr>"

definition CSharp_analyzeFunction :: "string \<Rightarrow> ancestors \<Rightarrow> node \<Rightarrow> FunctionMetrics option" where
  "CSharp_analyzeFunction sourceText ctx node =
     (let functionName = CSharp_getFunctionName sourceText ctx node
      in case CSharp_getFunctionBody ctx node of
           None \<Rightarrow> None
         | Some (bodyCtx, body) \<Rightarrow>
             (let st = CSharp_visit sourceText bodyCtx body initial_state
              in Some \<lparr>name = functionName,
                       complexity = this_complexity st,
                       details = this_details st,
                       startLine = row (startPosition node),
                       endLine = row (endPosition node),
                       startColumn = point.column (startPosition node),
                       endColumn = point.column (endPosition node)\<rparr>))"

text \<open>The local \<open>visit\<close> of \<open>analyzeFunctions\<close>, with the array \<open>functions\<close> it pushes to.\<close>

function CSharp_analyzeFunctions_visit ::
    "string \<Rightarrow> ancestors \<Rightarrow> node \<Rightarrow> FunctionMetrics list \<Rightarrow> FunctionMetrics list" where
  "CSharp_analyzeFunctions_visit sourceText ctx node functions =
     (let functions =
            (if CSharp_isFunctionDeclaration node then
               (case CSharp_analyzeFunction sourceText ctx node of
                  Some result \<Rightarrow> functions @ [result]
                | None \<Rightarrow> functions)
             else functions)
      in fold (\<lambda>(i, child) fs. CSharp_analyzeFunctions_visit sourceText ((node, i) # ctx) child fs)
           (enumerate 0 (children node)) functions)"
  by pat_completeness auto
termination
  by (relation "measure (\<lambda>(sourceText, ctx, node, functions). size node)")
     (auto simp: enumerate_child_size)

declare CSharp_analyzeFunctions_visit.simps [simp del]

text \<open>
  The parser is external: \<open>parser\<close> maps the source text to the root node of its tree.
\<close>

definition CSharp_analyzeFunctions :: "(string \<Rightarrow> node) \<Rightarrow> string \<Rightarrow> FunctionMetrics list" where
  "CSharp_analyzeFunctions parser sourceText =
     CSharp_analyzeFunctions_visit sourceText [] (parser sourceText) []"

definition CSharp_analyzeFile :: "(string \<Rightarrow> node) \<Rightarrow> string \<Rightarrow> FunctionMetrics list" where
  "CSharp_analyzeFile parser sourceText = CSharp_analyzeFunctions parser sourceText"

section \<open>The Go analyzer\<close>

definition Go_isFunctionDeclaration :: "node \<Rightarrow> bool" where
  "Go_isFunctionDeclaration node =
     (type node = ''function_declaration'' \<or>
      type node = ''method_declaration'')"

fun Go_findTypeInParameterList_loop :: "node list \<Rightarrow> node option" where
  "Go_findTypeInParameterList_loop [] = None"
| "Go_findTypeInParameterList_loop (child # rest) =
     (if type child = ''parameter_declaration'' then
        (case find (\<lambda>c. type c = ''type_identifier'' \<or> type c = ''pointer_type'' \<or>
                          type c = ''qualified_type'') (children child) of
           Some typeNode \<Rightarrow> Some typeNode
         | None \<Rightarrow> Go_findTypeInParameterList_loop rest)
      else Go_findTypeInParameterList_loop rest)"

definition Go_findTypeInParameterList :: "node \<Rightarrow> node option" where
  "Go_findTypeInParameterList parameterList =
     Go_findTypeInParameterList_loop (children parameterList)"

text \<open>
  \<open>getFunctionName\<close>: a method without a \<open>field_identifier\<close> child falls through to the
  lookup of a plain function's name, the tail of the source function.
\<close>

definition Go_getFunctionName_plain :: "string \<Rightarrow> node \<Rightarrow> string" where
  "Go_getFunctionName_plain sourceText node =
     (case find (\<lambda>child. type child = ''identifier'') (children node) of
        Some nameNode \<Rightarrow> substring sourceText (startIndex nameNode) (endIndex nameNode)
      | None \<Rightarrow> ''<anonymous>'')"

definition Go_getFunctionName :: "string \<Rightarrow> node \<Rightarrow> string" where
  "Go_getFunctionName sourceText node =
     (if type node = ''method_declaration'' then
        (let receiver = find (\<lambda>child. type child = ''parameter_list'') (children node);
             nameNode = find (\<lambda>child. type child = ''field_identifier'') (children node);
             receiverType =
               (case receiver of
                  None \<Rightarrow> []
                | Some r \<Rightarrow>
                    (case Go_findTypeInParameterList r of
                       Some typeNode \<Rightarrow> substring sourceText (startIndex typeNode) (endIndex typeNode)
                     | None \<Rightarrow> []))
         in case nameNode of
              Some n \<Rightarrow>
                (let methodName = substring sourceText (startIndex n) (endIndex n)
                 in if receiverType \<noteq> [] then receiverType @ ''.'' @ methodName else methodName)
            | None \<Rightarrow> Go_getFunctionName_plain sourceText node)
      else Go_getFunctionName_plain sourceText node)"

definition Go_getFunctionBody :: "ancestors \<Rightarrow> node \<Rightarrow> (ancestors \<times> node) option" where
  "Go_getFunctionBody ctx node =
     (case find_from 0 (\<lambda>child. type child = ''block'') (children node) of
        Some (i, body) \<Rightarrow> Some ((node, i) # ctx, body)
      | None \<Rightarrow> None)"

definition Go_isRecoverCall :: "string \<Rightarrow> node \<Rightarrow> bool" where
  "Go_isRecoverCall sourceText node =
     (case find (\<lambda>child. type child = ''identifier'') (children node) of
        Some funcNode \<Rightarrow>
          (let funcName = substring sourceText (startIndex funcNode) (endIndex funcNode)
           in funcName = ''recover'')
      | None \<Rightarrow> False)"

text \<open>\<open>getBinaryOperator\<close>: the text of the first child whose text is one of the two operators.\<close>

definition Go_getBinaryOperator :: "string \<Rightarrow> node \<Rightarrow> string option" where
  "Go_getBinaryOperator sourceText node =
     find (\<lambda>text. text = ''&&'' \<or> text = ''||'')
       (map (\<lambda>child. substring sourceText (startIndex child) (endIndex child)) (children node))"

definition Go_getComplexityIncrement :: "string \<Rightarrow> node \<Rightarrow> int \<Rightarrow> int" where
  "Go_getComplexityIncrement sourceText node nesting_now =
     (if type node = ''if_statement'' \<or> type node = ''for_statement'' \<or>
         type node = ''expression_switch_statement'' \<or> type node = ''type_switch_statement'' \<or>
         type node = ''select_statement'' then 1
      else if type node = ''binary_expression'' then
        (let operator = Go_getBinaryOperator sourceText node
         in if operator = Some ''&&'' \<or> operator = Some ''||'' then 1 else 0)
      else if type node = ''func_literal'' then (if nesting_now > 0 then 1 else 0)
      else if type node = ''break_statement'' \<or> type node = ''continue_statement'' then
        (let hasLabel = list_ex (\<lambda>child. type child = ''label_name'') (children node)
         in if hasLabel then 1 else (if nesting_now > 0 then 1 else 0))
      else if type node = ''goto_statement'' then 1
      else if type node = ''call_expression'' then (if Go_isRecoverCall sourceText node then 1 else 0)
      else 0)"

definition Go_getComplexityReason :: "string \<Rightarrow> node \<Rightarrow> string" where
  "Go_getComplexityReason sourceText node =
     (if type node = ''if_statement'' then ''if statement''
      else if type node = ''for_statement'' then ''for loop''
      else if type node = ''expression_switch_statement'' then ''switch statement''
      else if type node = ''type_switch_statement'' then ''type switch statement''
      else if type node = ''select_statement'' then ''select statement''
      else if type node = ''binary_expression'' then
        (let operator = Go_getBinaryOperator sourceText node
         in ''binary '' @ (case operator of None \<Rightarrow> ''null'' | Some s \<Rightarrow> s) @ '' operator'')
      else if type node = ''func_literal'' then ''function literal (nested)''
      else if type node = ''break_statement'' then
        (let hasBreakLabel = list_ex (\<lambda>child. type child = ''label_name'') (children node)
         in if hasBreakLabel then ''labeled break statement'' else ''break statement (nested)'')
      else if type node = ''continue_statement'' then
        (let hasContinueLabel = list_ex (\<lambda>child. type child = ''label_name'') (children node)
         in if hasContinueLabel then ''labeled continue statement''
            else ''continue statement (nested)'')
      else if type node = ''goto_statement'' then ''goto statement''
      else if type node = ''call_expression'' then
        (if Go_isRecoverCall sourceText node then ''recover call'' else ''call expression'')
      else ''unknown complexity source'')"

definition Go_increasesNesting :: "node \<Rightarrow> bool" where
  "Go_increasesNesting node =
     (type node = ''if_statement'' \<or>
      type node = ''for_statement'' \<or>
      type node = ''expression_switch_statement'' \<or>
      type node = ''type_switch_statement'' \<or>
      type node = ''select_statement'' \<or>
      type node = ''func_literal'')"

function Go_visit :: "string \<Rightarrow> ancestors \<Rightarrow> node \<Rightarrow> analyzer_state \<Rightarrow> analyzer_state" where
  "Go_visit sourceText ctx node st =
     (let increment = Go_getComplexityIncrement sourceText node (this_nesting st);
          st = (if increment > 0 then
                  (let reason = Go_getComplexityReason sourceText node
                   in st\<lparr>this_complexity := this_complexity st + increment,
                         this_details := this_details st @
                           [\<lparr>increment = increment, reason = reason,
                             line = row (startPosition node),
                             column = point.column (startPosition node),
                             nesting = this_nesting st\<rparr>]\<rparr>)
                else st)
      in if Go_increasesNesting node then
           (let st = st\<lparr>this_nesting := this_nesting st + 1\<rparr>;
                st = fold (\<lambda>(i, child) s.
                             if \<not> Go_isFunctionDeclaration child
                             then Go_visit sourceText ((node, i) # ctx) child s else s)
                       (enumerate 0 (children node)) st
            in st\<lparr>this_nesting := this_nesting st - 1\<rparr>)
         else
           fold (\<lambda>(i, child) s.
                   if \<not> Go_isFunctionDeclaration child
                   then Go_visit sourceText ((node, i) # ctx) child s else s)
             (enumerate 0 (children node)) st)"
  by pat_completeness auto
termination
  by (relation "measure (\<lambda>(sourceText, ctx, node, st). size node)")
     (auto simp: enumerate_child_size)

declare Go_visit.simps [simp del]

definition Go_analyzeFunction :: "string \<Rightarrow> ancestors \<Rightarrow> node \<Rightarrow> FunctionMetrics option" where
  "Go_analyzeFunction sourceText ctx node =
     (let functionName = Go_getFunctionName sourceText node
      in case Go_getFunctionBody ctx node of
           None \<Rightarrow> None
         | Some (bodyCtx, body) \<Rightarrow>
             (let st = Go_visit sourceText bodyCtx body initial_state
              in Some \<lparr>name = functionName,
                       complexity = this_complexity st,
                       details = this_details st,
                       startLine = row (startPosition node),
                       endLine = row (endPosition node),
                       startColumn = point.column (startPosition node),
                       endColumn = point.column (endPosition node)\<rparr>))"

function Go_analyzeFunctions_visit ::
    "string \<Rightarrow> ancestors \<Rightarrow> node \<Rightarrow> FunctionMetrics list \<Rightarrow> FunctionMetrics list" where
  "Go_analyzeFunctions_visit sourceText ctx node functions =
     (let functions =
            (if Go_isFunctionDeclaration node then
               (case Go_analyzeFunction sourceText ctx node of
                  Some result \<Rightarrow> functions @ [result]
                | None \<Rightarrow> functions)
             else functions)
      in fold (\<lambda>(i, child) fs. Go_analyzeFunctions_visit sourceText ((node, i) # ctx) child fs)
           (enumerate 0 (children node)) functions)"
  by pat_completeness auto
termination
  by (relation "measure (\<lambda>(sourceText, ctx, node, functions). size node)")
     (auto simp: enumerate_child_size)

declare Go_analyzeFunctions_visit.simps [simp del]

definition Go_analyzeFunctions :: "(string \<Rightarrow> node) \<Rightarrow> string \<Rightarrow> FunctionMetrics list" where
  "Go_analyzeFunctions parser sourceText =
     Go_analyzeFunctions_visit sourceText [] (parser sourceText) []"

definition Go_analyzeFile :: "(string \<Rightarrow> node) \<Rightarrow> string \<Rightarrow> FunctionMetrics list" where
  "Go_analyzeFile parser sourceText = Go_analyzeFunctions parser sourceText"

section \<open>The factory\<close>

text \<open>
  The wrappers that the table \<open>languageAnalyzers\<close> holds: each runs its analyzer and builds
  a new record for every function and every detail.
\<close>

definition createCSharpAnalyzer :: "(string \<Rightarrow> node) \<Rightarrow> string \<Rightarrow> FunctionMetrics list" where
  "createCSharpAnalyzer parser = (\<lambda>sourceText.
     (let functions = CSharp_analyzeFile parser sourceText
      in map (\<lambda>func.
           \<lparr>name = name func,
            complexity = complexity func,
            details = map (\<lambda>detail.
              \<lparr>increment = increment detail,
               reason = reason detail,
               line = line detail + 1,
               column = column detail + 1,
               nesting = nesting detail\<rparr>) (details func),
            startLine = startLine func,
            endLine = endLine func,
            startColumn = startColumn func,
            endColumn = endColumn func\<rparr>) functions))"

definition createGoAnalyzer :: "(string \<Rightarrow> node) \<Rightarrow> string \<Rightarrow> FunctionMetrics list" where
  "createGoAnalyzer parser = (\<lambda>sourceText.
     (let functions = Go_analyzeFile parser sourceText
      in map (\<lambda>func.
           \<lparr>name = name func,
            complexity = complexity func,
            details = map (\<lambda>detail.
              \<lparr>increment = increment detail,
               reason = reason detail,
               line = line detail + 1,
               column = column detail + 1,
               nesting = nesting detail\<rparr>) (details func),
            startLine = startLine func,
            endLine = endLine func,
            startColumn = startColumn func,
            endColumn = endColumn func\<rparr>) functions))"

text \<open>
  \<open>languageAnalyzers\<close> is an object literal: its own properties, in the order of the
  literal. The two parsers are those of the two analyzer modules.
\<close>

definition languageAnalyzers ::
    "(string \<Rightarrow> node) \<Rightarrow> (string \<Rightarrow> node) \<Rightarrow> (string \<times> (string \<Rightarrow> FunctionMetrics list)) list" where
  "languageAnalyzers csharpParser goParser =
     [(''csharp'', createCSharpAnalyzer csharpParser),
      (''go'', createGoAnalyzer goParser)]"

text \<open>
  Reading \<open>languageAnalyzers[languageId]\<close> is a property read on an ordinary object: the
  key is converted to a property name, an own property wins, and a name that is not an
  own property is looked up on the prototype that every object literal has, whose members
  are listed below. Calling what the read returns, as \<open>analyzer(sourceText)\<close> does, passes
  no receiver.
\<close>

datatype js_key = Str string | Null | Undefined

definition ToPropertyKey :: "js_key \<Rightarrow> string" where
  "ToPropertyKey k = (case k of Str s \<Rightarrow> s | Null \<Rightarrow> ''null'' | Undefined \<Rightarrow> ''undefined'')"

definition Object_prototype_names :: "string list" where
  "Object_prototype_names =
     [''constructor'', ''__defineGetter__'', ''__defineSetter__'', ''hasOwnProperty'',
      ''__lookupGetter__'', ''__lookupSetter__'', ''isPrototypeOf'', ''propertyIsEnumerable'',
      ''toString'', ''valueOf'', ''__proto__'', ''toLocaleString'']"

datatype js_property =
    NoProperty
  | OwnProperty "string \<Rightarrow> FunctionMetrics list"
  | InheritedProperty string

definition get_property ::
    "(string \<times> (string \<Rightarrow> FunctionMetrics list)) list \<Rightarrow> js_key \<Rightarrow> js_property" where
  "get_property obj k =
     (case map_of obj (ToPropertyKey k) of
        Some f \<Rightarrow> OwnProperty f
      | None \<Rightarrow>
          (if ToPropertyKey k \<in> set Object_prototype_names
           then InheritedProperty (ToPropertyKey k) else NoProperty))"

datatype js_value =
    MetricsArray "FunctionMetrics list"
  | StringObject string
  | StringValue string
  | BooleanValue bool

datatype js_error = TypeError

datatype completion = Normal js_value | Throw js_error

text \<open>
  What a call of a member of the prototype with the one argument \<open>sourceText\<close> and without
  a receiver completes with: \<open>__proto__\<close> reads as the prototype object, which is not
  callable; \<open>constructor\<close> wraps its argument; \<open>toString\<close> prints the missing receiver;
  \<open>isPrototypeOf\<close> answers false for an argument that is not an object; the others
  convert the missing receiver to an object, which fails.
\<close>

definition call_inherited :: "string \<Rightarrow> string \<Rightarrow> completion" where
  "call_inherited member sourceText =
     (if member = ''__proto__'' then Throw TypeError
      else if member = ''constructor'' then Normal (StringObject sourceText)
      else if member = ''toString'' then Normal (StringValue ''[object Undefined]'')
      else if member = ''isPrototypeOf'' then Normal (BooleanValue False)
      else Throw TypeError)"

text \<open>\<open>Object.keys\<close>: the names of the own properties, in insertion order.\<close>

definition MetricsAnalyzerFactory_getSupportedLanguages ::
    "(string \<Rightarrow> node) \<Rightarrow> (string \<Rightarrow> node) \<Rightarrow> string list" where
  "MetricsAnalyzerFactory_getSupportedLanguages csharpParser goParser =
     map fst (languageAnalyzers csharpParser goParser)"

definition MetricsAnalyzerFactory_analyzeFile ::
    "(string \<Rightarrow> node) \<Rightarrow> (string \<Rightarrow> node) \<Rightarrow> string \<Rightarrow> js_key \<Rightarrow> completion" where
  "MetricsAnalyzerFactory_analyzeFile csharpParser goParser sourceText languageId =
     (case get_property (languageAnalyzers csharpParser goParser) languageId of
        OwnProperty analyzer \<Rightarrow> Normal (MetricsArray (analyzer sourceText))
      | InheritedProperty member \<Rightarrow> call_inherited member sourceText
      | NoProperty \<Rightarrow> Normal (MetricsArray []))"

section \<open>Walks, recorded details and reported functions\<close>

text \<open>
  The definitions of this section are not functions of the source: they name what the
  source's walks do, so that the theorems below can speak about it. \<open>walk\<close> lists the
  activations of a scorer's \<open>visit\<close> in the order in which they happen: the node, its
  context and the value of \<open>this.nesting\<close> at that moment. The two parameters are the
  analyzer's \<open>isFunctionDeclaration\<close> and \<open>increasesNesting\<close>.
\<close>

function walk :: "(node \<Rightarrow> bool) \<Rightarrow> (node \<Rightarrow> bool) \<Rightarrow> ancestors \<Rightarrow> node \<Rightarrow> int
    \<Rightarrow> (ancestors \<times> node \<times> int) list" where
  "walk isFD incN ctx node k =
     (ctx, node, k) #
     concat (map (\<lambda>(i, child).
                    if isFD child then []
                    else walk isFD incN ((node, i) # ctx) child (if incN node then k + 1 else k))
               (enumerate 0 (children node)))"
  by pat_completeness auto
termination
  by (relation "measure (\<lambda>(isFD, incN, ctx, node, k). size node)")
     (auto simp: enumerate_child_size)

declare walk.simps [simp del]

definition CSharp_walk :: "ancestors \<Rightarrow> node \<Rightarrow> int \<Rightarrow> (ancestors \<times> node \<times> int) list" where
  "CSharp_walk = walk CSharp_isFunctionDeclaration CSharp_increasesNesting"

definition Go_walk :: "ancestors \<Rightarrow> node \<Rightarrow> int \<Rightarrow> (ancestors \<times> node \<times> int) list" where
  "Go_walk = walk Go_isFunctionDeclaration Go_increasesNesting"

text \<open>\<open>add_details st ds\<close>: the state after the details \<open>ds\<close> have been recorded in \<open>st\<close>.\<close>

definition add_details :: "analyzer_state \<Rightarrow> MetricsDetail list \<Rightarrow> analyzer_state" where
  "add_details st ds =
     st\<lparr>this_complexity := this_complexity st + sum_list (map increment ds),
        this_details := this_details st @ ds\<rparr>"

text \<open>The detail that one activation records: none when the rule table gives no weight.\<close>

definition CSharp_detail :: "string \<Rightarrow> ancestors \<times> node \<times> int \<Rightarrow> MetricsDetail list" where
  "CSharp_detail sourceText a =
     (case a of (ctx, node, k) \<Rightarrow>
        (if CSharp_getComplexityIncrement sourceText ctx node k > 0
         then [\<lparr>increment = CSharp_getComplexityIncrement sourceText ctx node k + k,
                reason = CSharp_getComplexityReason sourceText ctx node,
                line = row (startPosition node),
                column = point.column (startPosition node),
                nesting = k\<rparr>]
         else []))"

definition Go_detail :: "string \<Rightarrow> ancestors \<times> node \<times> int \<Rightarrow> MetricsDetail list" where
  "Go_detail sourceText a =
     (case a of (ctx, node, k) \<Rightarrow>
        (if Go_getComplexityIncrement sourceText node k > 0
         then [\<lparr>increment = Go_getComplexityIncrement sourceText node k,
                reason = Go_getComplexityReason sourceText node,
                line = row (startPosition node),
                column = point.column (startPosition node),
                nesting = k\<rparr>]
         else []))"

text \<open>
  \<open>preorder\<close> lists every node of a tree with its context, parents before children and
  children from left to right; \<open>CSharp_entries\<close> and \<open>Go_entries\<close> give the results that
  the top-level traversal pushes at one node.
\<close>

function preorder :: "ancestors \<Rightarrow> node \<Rightarrow> (ancestors \<times> node) list" where
  "preorder ctx node =
     (ctx, node) #
     concat (map (\<lambda>(i, child). preorder ((node, i) # ctx) child) (enumerate 0 (children node)))"
  by pat_completeness auto
termination
  by (relation "measure (\<lambda>(ctx, node). size node)") (auto simp: enumerate_child_size)

declare preorder.simps [simp del]

definition CSharp_entries :: "string \<Rightarrow> ancestors \<times> node \<Rightarrow> FunctionMetrics list" where
  "CSharp_entries sourceText a =
     (case a of (ctx, node) \<Rightarrow>
        (if CSharp_isFunctionDeclaration node then
           (case CSharp_analyzeFunction sourceText ctx node of Some result \<Rightarrow> [result] | None \<Rightarrow> [])
         else []))"

definition Go_entries :: "string \<Rightarrow> ancestors \<times> node \<Rightarrow> FunctionMetrics list" where
  "Go_entries sourceText a =
     (case a of (ctx, node) \<Rightarrow>
        (if Go_isFunctionDeclaration node then
           (case Go_analyzeFunction sourceText ctx node of Some result \<Rightarrow> [result] | None \<Rightarrow> [])
         else []))"

text \<open>
  \<open>prune isFD node\<close> is \<open>node\<close> with the subtree below every function declaration that is
  nested in it emptied: the declaration itself stays, with its kind, offsets and
  positions, and loses its children.
\<close>

definition empty_node :: "node \<Rightarrow> node" where
  "empty_node c = Node (type c) (startIndex c) (endIndex c) (startPosition c) (endPosition c) []"

fun prune :: "(node \<Rightarrow> bool) \<Rightarrow> node \<Rightarrow> node" where
  "prune isFD (Node t s e sp ep cs) =
     Node t s e sp ep (map (\<lambda>c. if isFD c then empty_node c else prune isFD c) cs)"

text \<open>
  Two nodes are \<open>shallow_eq\<close> when they agree on everything but their children, and
  \<open>sim\<close>ilar when their children are moreover pairwise \<open>shallow_eq\<close>; two contexts are
  similar (\<open>ctx_sim\<close>) when they have the same indices and similar nodes.
\<close>

definition shallow_eq :: "node \<Rightarrow> node \<Rightarrow> bool" where
  "shallow_eq a b =
     (type a = type b \<and> startIndex a = startIndex b \<and> endIndex a = endIndex b \<and>
      startPosition a = startPosition b \<and> endPosition a = endPosition b)"

definition sim :: "node \<Rightarrow> node \<Rightarrow> bool" where
  "sim a b = (shallow_eq a b \<and> list_all2 shallow_eq (children a) (children b))"

definition ctx_sim :: "ancestors \<Rightarrow> ancestors \<Rightarrow> bool" where
  "ctx_sim c c' = list_all2 (\<lambda>(a, i) (b, j). i = j \<and> sim a b) c c'"

section \<open>Example programs\<close>

text \<open>
  Six programs with syntax trees for them, built after the grammars of the parsers; a
  node spans from its first token to its last. \<open>try_source\<close> is the source of the repository's
  test of a method with one try block and two catch clauses. \<open>preproc_source\<close> is a class
  with a method inside a conditional-compilation block; the method declares a variable
  with one logical operator at the top of its body and one with two logical operators
  inside a loop. \<open>nested_source\<close> is a class with a method, again inside a
  conditional-compilation block, that declares a variable whose initializer is a lambda
  with a local function in its body; \<open>nested_source_eq\<close> differs from it in the operator
  of the condition inside the local function only. \<open>switch_method\<close> is a method that
  returns a switch expression with a conditional expression in its first arm, and
  \<open>go_root\<close> the tree of a Go file with one function: a loop around a conditional around
  a break. The last two are written on one line, so that every row is 0 and the column
  of a position is its offset in the text.
\<close>

definition node0 :: "string \<Rightarrow> nat \<Rightarrow> nat \<Rightarrow> node list \<Rightarrow> node" where
  "node0 ty s e cs = Node ty s e (Point 0 s) (Point 0 e) cs"

definition switch_source :: string where
  "switch_source = ''int M(int x){return x switch{1=>x>0?1:2,_=>0};}''"

definition switch_node :: node where
  "switch_node =
     node0 ''switch_expression'' 20 45
       [node0 ''identifier'' 20 21 [],
        node0 ''switch'' 22 28 [],
        node0 ''{'' 28 29 [],
        node0 ''switch_expression_arm'' 29 39
          [node0 ''constant_pattern'' 29 30
             [node0 ''integer_literal'' 29 30 []],
           node0 ''=>'' 30 32 [],
           node0 ''conditional_expression'' 32 39
             [node0 ''binary_expression'' 32 35
                [node0 ''identifier'' 32 33 [],
                 node0 ''>'' 33 34 [],
                 node0 ''integer_literal'' 34 35 []],
              node0 ''?'' 35 36 [],
              node0 ''integer_literal'' 36 37 [],
              node0 '':'' 37 38 [],
              node0 ''integer_literal'' 38 39 []]],
        node0 '','' 39 40 [],
        node0 ''switch_expression_arm'' 40 44
          [node0 ''discard'' 40 41 [],
           node0 ''=>'' 41 43 [],
           node0 ''integer_literal'' 43 44 []],
        node0 ''}'' 44 45 []]"

definition switch_method :: node where
  "switch_method =
     node0 ''method_declaration'' 0 47
       [node0 ''predefined_type'' 0 3 [],
        node0 ''identifier'' 4 5 [],
        node0 ''parameter_list'' 5 12
          [node0 ''('' 5 6 [],
           node0 ''parameter'' 6 11
             [node0 ''predefined_type'' 6 9 [],
              node0 ''identifier'' 10 11 []],
           node0 '')'' 11 12 []],
        node0 ''block'' 12 47
          [node0 ''{'' 12 13 [],
           node0 ''return_statement'' 13 46
             [node0 ''return'' 13 19 [],
              switch_node,
              node0 '';'' 45 46 []],
           node0 ''}'' 46 47 []]]"

definition go_source :: string where
  "go_source = ''func F(){for{if a{break}}}''"

definition go_root :: node where
  "go_root =
     node0 ''source_file'' 0 26
       [node0 ''function_declaration'' 0 26
          [node0 ''func'' 0 4 [],
           node0 ''identifier'' 5 6 [],
           node0 ''parameter_list'' 6 8
             [node0 ''('' 6 7 [],
              node0 '')'' 7 8 []],
           node0 ''block'' 8 26
             [node0 ''{'' 8 9 [],
              node0 ''for_statement'' 9 25
                [node0 ''for'' 9 12 [],
                 node0 ''block'' 12 25
                   [node0 ''{'' 12 13 [],
                    node0 ''if_statement'' 13 24
                      [node0 ''if'' 13 15 [],
                       node0 ''identifier'' 16 17 [],
                       node0 ''block'' 17 24
                         [node0 ''{'' 17 18 [],
                          node0 ''break_statement'' 18 23
                            [node0 ''break'' 18 23 []],
                          node0 ''}'' 23 24 []]],
                    node0 ''}'' 24 25 []]],
              node0 ''}'' 25 26 []]]]"

definition try_source :: string where
  "try_source =
     ''\<newline>'' @
     ''                public class Test {\<newline>'' @
     ''                    public void MultipleCatch() {\<newline>'' @
     ''                        try {\<newline>'' @
     ''                            // risky code\<newline>'' @
     ''                        }\<newline>'' @
     ''                        catch (ArgumentException ex) {\<newline>'' @
     ''                            // handle argument exception\<newline>'' @
     ''                        }\<newline>'' @
     ''                        catch (InvalidOperationException ex) {\<newline>'' @
     ''                            // handle invalid operation\<newline>'' @
     ''                        }\<newline>'' @
     ''                    }\<newline>'' @
     ''                }\<newline>'' @
     ''            ''"

definition try_root :: node where
  "try_root =
     Node ''compilation_unit'' 17 507 (Point 1 16) (Point 13 17)
       [Node ''class_declaration'' 17 507 (Point 1 16) (Point 13 17)
          [Node ''modifier'' 17 23 (Point 1 16) (Point 1 22)
             [Node ''public'' 17 23 (Point 1 16) (Point 1 22) []],
           Node ''class'' 24 29 (Point 1 23) (Point 1 28) [],
           Node ''identifier'' 30 34 (Point 1 29) (Point 1 33) [],
           Node ''declaration_list'' 35 507 (Point 1 34) (Point 13 17)
             [Node ''{'' 35 36 (Point 1 34) (Point 1 35) [],
              Node ''method_declaration'' 57 489 (Point 2 20) (Point 12 21)
                [Node ''modifier'' 57 63 (Point 2 20) (Point 2 26)
                   [Node ''public'' 57 63 (Point 2 20) (Point 2 26) []],
                 Node ''predefined_type'' 64 68 (Point 2 27) (Point 2 31) [],
                 Node ''identifier'' 69 82 (Point 2 32) (Point 2 45) [],
                 Node ''parameter_list'' 82 84 (Point 2 45) (Point 2 47)
                   [Node ''('' 82 83 (Point 2 45) (Point 2 46) [],
                    Node '')'' 83 84 (Point 2 46) (Point 2 47) []],
                 Node ''block'' 85 489 (Point 2 48) (Point 12 21)
                   [Node ''{'' 85 86 (Point 2 48) (Point 2 49) [],
                    Node ''try_statement'' 111 467 (Point 3 24) (Point 11 25)
                      [Node ''try'' 111 114 (Point 3 24) (Point 3 27) [],
                       Node ''block'' 115 184 (Point 3 28) (Point 5 25)
                         [Node ''{'' 115 116 (Point 3 28) (Point 3 29) [],
                          Node ''comment'' 145 158 (Point 4 28) (Point 4 41) [],
                          Node ''}'' 183 184 (Point 5 24) (Point 5 25) []],
                       Node ''catch_clause'' 209 322 (Point 6 24) (Point 8 25)
                         [Node ''catch'' 209 214 (Point 6 24) (Point 6 29) [],
                          Node ''catch_declaration'' 215 237 (Point 6 30) (Point 6 52)
                            [Node ''('' 215 216 (Point 6 30) (Point 6 31) [],
                             Node ''identifier'' 216 233 (Point 6 31) (Point 6 48) [],
                             Node ''identifier'' 234 236 (Point 6 49) (Point 6 51) [],
                             Node '')'' 236 237 (Point 6 51) (Point 6 52) []],
                          Node ''block'' 238 322 (Point 6 53) (Point 8 25)
                            [Node ''{'' 238 239 (Point 6 53) (Point 6 54) [],
                             Node ''comment'' 268 296 (Point 7 28) (Point 7 56) [],
                             Node ''}'' 321 322 (Point 8 24) (Point 8 25) []]],
                       Node ''catch_clause'' 347 467 (Point 9 24) (Point 11 25)
                         [Node ''catch'' 347 352 (Point 9 24) (Point 9 29) [],
                          Node ''catch_declaration'' 353 383 (Point 9 30) (Point 9 60)
                            [Node ''('' 353 354 (Point 9 30) (Point 9 31) [],
                             Node ''identifier'' 354 379 (Point 9 31) (Point 9 56) [],
                             Node ''identifier'' 380 382 (Point 9 57) (Point 9 59) [],
                             Node '')'' 382 383 (Point 9 59) (Point 9 60) []],
                          Node ''block'' 384 467 (Point 9 61) (Point 11 25)
                            [Node ''{'' 384 385 (Point 9 61) (Point 9 62) [],
                             Node ''comment'' 414 441 (Point 10 28) (Point 10 55) [],
                             Node ''}'' 466 467 (Point 11 24) (Point 11 25) []]]],
                    Node ''}'' 488 489 (Point 12 20) (Point 12 21) []]],
              Node ''}'' 506 507 (Point 13 16) (Point 13 17) []]]]"

definition preproc_source :: string where
  "preproc_source =
     ''class C {\<newline>'' @
     ''#if DEBUG\<newline>'' @
     ''  void M() {\<newline>'' @
     ''    bool a = x && y;\<newline>'' @
     ''    while (a) {\<newline>'' @
     ''      bool b = x && y || z;\<newline>'' @
     ''    }\<newline>'' @
     ''  }\<newline>'' @
     ''#endif\<newline>'' @
     ''}''"

definition preproc_outer_and :: node where
  "preproc_outer_and =
     Node ''binary_expression'' 46 52 (Point 3 13) (Point 3 19)
       [Node ''identifier'' 46 47 (Point 3 13) (Point 3 14) [],
        Node ''&&'' 48 50 (Point 3 15) (Point 3 17) [],
        Node ''identifier'' 51 52 (Point 3 18) (Point 3 19) []]"

definition preproc_inner_and :: node where
  "preproc_inner_and =
     Node ''binary_expression'' 85 91 (Point 5 15) (Point 5 21)
       [Node ''identifier'' 85 86 (Point 5 15) (Point 5 16) [],
        Node ''&&'' 87 89 (Point 5 17) (Point 5 19) [],
        Node ''identifier'' 90 91 (Point 5 20) (Point 5 21) []]"

definition preproc_root :: node where
  "preproc_root =
     Node ''compilation_unit'' 0 116 (Point 0 0) (Point 9 1)
       [Node ''class_declaration'' 0 116 (Point 0 0) (Point 9 1)
          [Node ''class'' 0 5 (Point 0 0) (Point 0 5) [],
           Node ''identifier'' 6 7 (Point 0 6) (Point 0 7) [],
           Node ''declaration_list'' 8 116 (Point 0 8) (Point 9 1)
             [Node ''{'' 8 9 (Point 0 8) (Point 0 9) [],
              Node ''preproc_if'' 10 114 (Point 1 0) (Point 8 6)
                [Node ''#if'' 10 13 (Point 1 0) (Point 1 3) [],
                 Node ''identifier'' 14 19 (Point 1 4) (Point 1 9) [],
                 Node ''method_declaration'' 22 107 (Point 2 2) (Point 7 3)
                   [Node ''predefined_type'' 22 26 (Point 2 2) (Point 2 6) [],
                    Node ''identifier'' 27 28 (Point 2 7) (Point 2 8) [],
                    Node ''parameter_list'' 28 30 (Point 2 8) (Point 2 10)
                      [Node ''('' 28 29 (Point 2 8) (Point 2 9) [],
                       Node '')'' 29 30 (Point 2 9) (Point 2 10) []],
                    Node ''block'' 31 107 (Point 2 11) (Point 7 3)
                      [Node ''{'' 31 32 (Point 2 11) (Point 2 12) [],
                       Node ''local_declaration_statement'' 37 53 (Point 3 4) (Point 3 20)
                         [Node ''variable_declaration'' 37 52 (Point 3 4) (Point 3 19)
                            [Node ''predefined_type'' 37 41 (Point 3 4) (Point 3 8) [],
                             Node ''variable_declarator'' 42 52 (Point 3 9) (Point 3 19)
                               [Node ''identifier'' 42 43 (Point 3 9) (Point 3 10) [],
                                Node ''='' 44 45 (Point 3 11) (Point 3 12) [],
                                preproc_outer_and]],
                          Node '';'' 52 53 (Point 3 19) (Point 3 20) []],
                       Node ''while_statement'' 58 103 (Point 4 4) (Point 6 5)
                         [Node ''while'' 58 63 (Point 4 4) (Point 4 9) [],
                          Node ''('' 64 65 (Point 4 10) (Point 4 11) [],
                          Node ''identifier'' 65 66 (Point 4 11) (Point 4 12) [],
                          Node '')'' 66 67 (Point 4 12) (Point 4 13) [],
                          Node ''block'' 68 103 (Point 4 14) (Point 6 5)
                            [Node ''{'' 68 69 (Point 4 14) (Point 4 15) [],
                             Node ''local_declaration_statement'' 76 97 (Point 5 6) (Point 5 27)
                               [Node ''variable_declaration'' 76 96 (Point 5 6) (Point 5 26)
                                  [Node ''predefined_type'' 76 80 (Point 5 6) (Point 5 10) [],
                                   Node ''variable_declarator'' 81 96 (Point 5 11) (Point 5 26)
                                     [Node ''identifier'' 81 82 (Point 5 11) (Point 5 12) [],
                                      Node ''='' 83 84 (Point 5 13) (Point 5 14) [],
                                      Node ''binary_expression'' 85 96 (Point 5 15) (Point 5 26)
                                        [preproc_inner_and,
                                         Node ''||'' 92 94 (Point 5 22) (Point 5 24) [],
                                         Node ''identifier'' 95 96 (Point 5 25) (Point 5 26) []]]],
                                Node '';'' 96 97 (Point 5 26) (Point 5 27) []],
                             Node ''}'' 102 103 (Point 6 4) (Point 6 5) []]],
                       Node ''}'' 106 107 (Point 7 2) (Point 7 3) []]],
                 Node ''#endif'' 108 114 (Point 8 0) (Point 8 6) []],
              Node ''}'' 115 116 (Point 9 0) (Point 9 1) []]]]"

definition nested_source :: string where
  "nested_source =
     ''class C {\<newline>'' @
     ''#if DEBUG\<newline>'' @
     ''  void M() {\<newline>'' @
     ''    Action f = () => {\<newline>'' @
     ''      void L() {\<newline>'' @
     ''        if (x && y) { }\<newline>'' @
     ''      }\<newline>'' @
     ''    };\<newline>'' @
     ''  }\<newline>'' @
     ''#endif\<newline>'' @
     ''}''"

definition nested_root :: node where
  "nested_root =
     Node ''compilation_unit'' 0 124 (Point 0 0) (Point 10 1)
       [Node ''class_declaration'' 0 124 (Point 0 0) (Point 10 1)
          [Node ''class'' 0 5 (Point 0 0) (Point 0 5) [],
           Node ''identifier'' 6 7 (Point 0 6) (Point 0 7) [],
           Node ''declaration_list'' 8 124 (Point 0 8) (Point 10 1)
             [Node ''{'' 8 9 (Point 0 8) (Point 0 9) [],
              Node ''preproc_if'' 10 122 (Point 1 0) (Point 9 6)
                [Node ''#if'' 10 13 (Point 1 0) (Point 1 3) [],
                 Node ''identifier'' 14 19 (Point 1 4) (Point 1 9) [],
                 Node ''method_declaration'' 22 115 (Point 2 2) (Point 8 3)
                   [Node ''predefined_type'' 22 26 (Point 2 2) (Point 2 6) [],
                    Node ''identifier'' 27 28 (Point 2 7) (Point 2 8) [],
                    Node ''parameter_list'' 28 30 (Point 2 8) (Point 2 10)
                      [Node ''('' 28 29 (Point 2 8) (Point 2 9) [],
                       Node '')'' 29 30 (Point 2 9) (Point 2 10) []],
                    Node ''block'' 31 115 (Point 2 11) (Point 8 3)
                      [Node ''{'' 31 32 (Point 2 11) (Point 2 12) [],
                       Node ''local_declaration_statement'' 37 111 (Point 3 4) (Point 7 6)
                         [Node ''variable_declaration'' 37 110 (Point 3 4) (Point 7 5)
                            [Node ''identifier'' 37 43 (Point 3 4) (Point 3 10) [],
                             Node ''variable_declarator'' 44 110 (Point 3 11) (Point 7 5)
                               [Node ''identifier'' 44 45 (Point 3 11) (Point 3 12) [],
                                Node ''='' 46 47 (Point 3 13) (Point 3 14) [],
                                Node ''lambda_expression'' 48 110 (Point 3 15) (Point 7 5)
                                  [Node ''parameter_list'' 48 50 (Point 3 15) (Point 3 17)
                                     [Node ''('' 48 49 (Point 3 15) (Point 3 16) [],
                                      Node '')'' 49 50 (Point 3 16) (Point 3 17) []],
                                   Node ''=>'' 51 53 (Point 3 18) (Point 3 20) [],
                                   Node ''block'' 54 110 (Point 3 21) (Point 7 5)
                                     [Node ''{'' 54 55 (Point 3 21) (Point 3 22) [],
                                      Node ''local_function_statement'' 62 104 (Point 4 6) (Point 6 7)
                                        [Node ''predefined_type'' 62 66 (Point 4 6) (Point 4 10) [],
                                         Node ''identifier'' 67 68 (Point 4 11) (Point 4 12) [],
                                         Node ''parameter_list'' 68 70 (Point 4 12) (Point 4 14)
                                           [Node ''('' 68 69 (Point 4 12) (Point 4 13) [],
                                            Node '')'' 69 70 (Point 4 13) (Point 4 14) []],
                                         Node ''block'' 71 104 (Point 4 15) (Point 6 7)
                                           [Node ''{'' 71 72 (Point 4 15) (Point 4 16) [],
                                            Node ''if_statement'' 81 96 (Point 5 8) (Point 5 23)
                                              [Node ''if'' 81 83 (Point 5 8) (Point 5 10) [],
                                               Node ''('' 84 85 (Point 5 11) (Point 5 12) [],
                                               Node ''binary_expression'' 85 91 (Point 5 12) (Point 5 18)
                                                 [Node ''identifier'' 85 86 (Point 5 12) (Point 5 13) [],
                                                  Node ''&&'' 87 89 (Point 5 14) (Point 5 16) [],
                                                  Node ''identifier'' 90 91 (Point 5 17) (Point 5 18) []],
                                               Node '')'' 91 92 (Point 5 18) (Point 5 19) [],
                                               Node ''block'' 93 96 (Point 5 20) (Point 5 23)
                                                 [Node ''{'' 93 94 (Point 5 20) (Point 5 21) [],
                                                  Node ''}'' 95 96 (Point 5 22) (Point 5 23) []]],
                                            Node ''}'' 103 104 (Point 6 6) (Point 6 7) []]],
                                      Node ''}'' 109 110 (Point 7 4) (Point 7 5) []]]]],
                          Node '';'' 110 111 (Point 7 5) (Point 7 6) []],
                       Node ''}'' 114 115 (Point 8 2) (Point 8 3) []]],
                 Node ''#endif'' 116 122 (Point 9 0) (Point 9 6) []],
              Node ''}'' 123 124 (Point 10 0) (Point 10 1) []]]]"

definition nested_source_eq :: string where
  "nested_source_eq =
     ''class C {\<newline>'' @
     ''#if DEBUG\<newline>'' @
     ''  void M() {\<newline>'' @
     ''    Action f = () => {\<newline>'' @
     ''      void L() {\<newline>'' @
     ''        if (x == y) { }\<newline>'' @
     ''      }\<newline>'' @
     ''    };\<newline>'' @
     ''  }\<newline>'' @
     ''#endif\<newline>'' @
     ''}''"

definition nested_root_eq :: node where
  "nested_root_eq =
     Node ''compilation_unit'' 0 124 (Point 0 0) (Point 10 1)
       [Node ''class_declaration'' 0 124 (Point 0 0) (Point 10 1)
          [Node ''class'' 0 5 (Point 0 0) (Point 0 5) [],
           Node ''identifier'' 6 7 (Point 0 6) (Point 0 7) [],
           Node ''declaration_list'' 8 124 (Point 0 8) (Point 10 1)
             [Node ''{'' 8 9 (Point 0 8) (Point 0 9) [],
              Node ''preproc_if'' 10 122 (Point 1 0) (Point 9 6)
                [Node ''#if'' 10 13 (Point 1 0) (Point 1 3) [],
                 Node ''identifier'' 14 19 (Point 1 4) (Point 1 9) [],
                 Node ''method_declaration'' 22 115 (Point 2 2) (Point 8 3)
                   [Node ''predefined_type'' 22 26 (Point 2 2) (Point 2 6) [],
                    Node ''identifier'' 27 28 (Point 2 7) (Point 2 8) [],
                    Node ''parameter_list'' 28 30 (Point 2 8) (Point 2 10)
                      [Node ''('' 28 29 (Point 2 8) (Point 2 9) [],
                       Node '')'' 29 30 (Point 2 9) (Point 2 10) []],
                    Node ''block'' 31 115 (Point 2 11) (Point 8 3)
                      [Node ''{'' 31 32 (Point 2 11) (Point 2 12) [],
                       Node ''local_declaration_statement'' 37 111 (Point 3 4) (Point 7 6)
                         [Node ''variable_declaration'' 37 110 (Point 3 4) (Point 7 5)
                            [Node ''identifier'' 37 43 (Point 3 4) (Point 3 10) [],
                             Node ''variable_declarator'' 44 110 (Point 3 11) (Point 7 5)
                               [Node ''identifier'' 44 45 (Point 3 11) (Point 3 12) [],
                                Node ''='' 46 47 (Point 3 13) (Point 3 14) [],
                                Node ''lambda_expression'' 48 110 (Point 3 15) (Point 7 5)
                                  [Node ''parameter_list'' 48 50 (Point 3 15) (Point 3 17)
                                     [Node ''('' 48 49 (Point 3 15) (Point 3 16) [],
                                      Node '')'' 49 50 (Point 3 16) (Point 3 17) []],
                                   Node ''=>'' 51 53 (Point 3 18) (Point 3 20) [],
                                   Node ''block'' 54 110 (Point 3 21) (Point 7 5)
                                     [Node ''{'' 54 55 (Point 3 21) (Point 3 22) [],
                                      Node ''local_function_statement'' 62 104 (Point 4 6) (Point 6 7)
                                        [Node ''predefined_type'' 62 66 (Point 4 6) (Point 4 10) [],
                                         Node ''identifier'' 67 68 (Point 4 11) (Point 4 12) [],
                                         Node ''parameter_list'' 68 70 (Point 4 12) (Point 4 14)
                                           [Node ''('' 68 69 (Point 4 12) (Point 4 13) [],
                                            Node '')'' 69 70 (Point 4 13) (Point 4 14) []],
                                         Node ''block'' 71 104 (Point 4 15) (Point 6 7)
                                           [Node ''{'' 71 72 (Point 4 15) (Point 4 16) [],
                                            Node ''if_statement'' 81 96 (Point 5 8) (Point 5 23)
                                              [Node ''if'' 81 83 (Point 5 8) (Point 5 10) [],
                                               Node ''('' 84 85 (Point 5 11) (Point 5 12) [],
                                               Node ''binary_expression'' 85 91 (Point 5 12) (Point 5 18)
                                                 [Node ''identifier'' 85 86 (Point 5 12) (Point 5 13) [],
                                                  Node ''=='' 87 89 (Point 5 14) (Point 5 16) [],
                                                  Node ''identifier'' 90 91 (Point 5 17) (Point 5 18) []],
                                               Node '')'' 91 92 (Point 5 18) (Point 5 19) [],
                                               Node ''block'' 93 96 (Point 5 20) (Point 5 23)
                                                 [Node ''{'' 93 94 (Point 5 20) (Point 5 21) [],
                                                  Node ''}'' 95 96 (Point 5 22) (Point 5 23) []]],
                                            Node ''}'' 103 104 (Point 6 6) (Point 6 7) []]],
                                      Node ''}'' 109 110 (Point 7 4) (Point 7 5) []]]]],
                          Node '';'' 110 111 (Point 7 5) (Point 7 6) []],
                       Node ''}'' 114 115 (Point 8 2) (Point 8 3) []]],
                 Node ''#endif'' 116 122 (Point 9 0) (Point 9 6) []],
              Node ''}'' 123 124 (Point 10 0) (Point 10 1) []]]]"

section \<open>Properties of the walks\<close>

lemma add_details_Nil [simp]: "add_details st [] = st"
  by (simp add: add_details_def)

lemma add_details_append [simp]: "add_details (add_details st xs) ys = add_details st (xs @ ys)"
  by (simp add: add_details_def)

lemma add_details_nesting [simp]: "this_nesting (add_details st ds) = this_nesting st"
  by (simp add: add_details_def)

lemma add_details_nesting_update:
  "add_details (st\<lparr>this_nesting := k\<rparr>) ds = (add_details st ds)\<lparr>this_nesting := k\<rparr>"
  by (simp add: add_details_def)

lemma fold_children_add_details:
  assumes "\<And>i child s. (i, child) \<in> set xs \<Longrightarrow> \<not> isFD child \<Longrightarrow>
             V i child s = add_details s (D i child (this_nesting s))"
  shows "fold (\<lambda>(i, child) s. if \<not> isFD child then V i child s else s) xs st =
         add_details st
           (concat (map (\<lambda>(i, child). if isFD child then [] else D i child (this_nesting st)) xs))"
  using assms
proof (induction xs arbitrary: st)
  case Nil
  then show ?case by simp
next
  case (Cons x xs)
  obtain i child where x: "x = (i, child)" by (cases x)
  have step: "(if \<not> isFD child then V i child st else st) =
              add_details st (if isFD child then [] else D i child (this_nesting st))"
    using Cons.prems [of i child st] x by simp
  have "fold (\<lambda>(i, child) s. if \<not> isFD child then V i child s else s) xs
          (add_details st (if isFD child then [] else D i child (this_nesting st))) =
        add_details (add_details st (if isFD child then [] else D i child (this_nesting st)))
          (concat (map (\<lambda>(i, child). if isFD child then [] else D i child (this_nesting st)) xs))"
    using Cons.IH [of "add_details st (if isFD child then [] else D i child (this_nesting st))"]
      Cons.prems by (simp cong: if_cong)
  then show ?case using x step by (simp cong: if_cong)
qed

lemma concat_map_children:
  "concat (map F (concat (map (\<lambda>(i, child). if P child then [] else W i child) xs))) =
   concat (map (\<lambda>(i, child). if P child then [] else concat (map F (W i child))) xs)"
  by (induction xs) auto

lemma CSharp_visit_walk:
  "CSharp_visit sourceText ctx node st =
     add_details st (concat (map (CSharp_detail sourceText) (CSharp_walk ctx node (this_nesting st))))"
proof (induction sourceText ctx node st rule: CSharp_visit.induct)
  case (1 sourceText ctx node st)
  let ?b = "CSharp_getComplexityIncrement sourceText ctx node (this_nesting st)"
  let ?own = "CSharp_detail sourceText (ctx, node, this_nesting st)"
  let ?st1 = "add_details st ?own"
  let ?k' = "if CSharp_increasesNesting node then this_nesting st + 1 else this_nesting st"
  let ?D = "\<lambda>i child k. concat (map (CSharp_detail sourceText) (CSharp_walk ((node, i) # ctx) child k))"
  let ?rest = "concat (map (\<lambda>(i, child). if CSharp_isFunctionDeclaration child then [] else ?D i child ?k')
                 (enumerate 0 (children node)))"
  have st1: "(if ?b > 0 then
               st\<lparr>this_complexity := this_complexity st + (?b + this_nesting st),
                  this_details := this_details st @
                    [\<lparr>increment = ?b + this_nesting st,
                      reason = CSharp_getComplexityReason sourceText ctx node,
                      line = row (startPosition node),
                      column = point.column (startPosition node),
                      nesting = this_nesting st\<rparr>]\<rparr>
             else st) = ?st1"
    by (simp add: add_details_def CSharp_detail_def)
  have walk_eq: "concat (map (CSharp_detail sourceText) (CSharp_walk ctx node (this_nesting st))) =
                 ?own @ ?rest"
    unfolding CSharp_walk_def
    apply (subst walk.simps)
    apply (simp add: concat_map_children)
    done
  have IH: "\<And>i child s. (i, child) \<in> set (enumerate 0 (children node)) \<Longrightarrow>
              \<not> CSharp_isFunctionDeclaration child \<Longrightarrow>
              CSharp_visit sourceText ((node, i) # ctx) child s = add_details s (?D i child (this_nesting s))"
    using "1.IH" by (cases "CSharp_increasesNesting node") simp_all
  have fold_eq: "\<And>s. fold (\<lambda>(i, child) s. if \<not> CSharp_isFunctionDeclaration child
                   then CSharp_visit sourceText ((node, i) # ctx) child s else s)
             (enumerate 0 (children node)) s =
           add_details s (concat (map (\<lambda>(i, child).
             if CSharp_isFunctionDeclaration child then [] else ?D i child (this_nesting s))
             (enumerate 0 (children node))))"
    by (rule fold_children_add_details) (rule IH)
  have "CSharp_visit sourceText ctx node st = add_details st (?own @ ?rest)"
    apply (subst CSharp_visit.simps)
    apply (simp only: Let_def st1 fold_eq)
    apply (simp cong: if_cong)
    apply (simp add: add_details_def)
    done
  then show ?case using walk_eq by simp
qed

lemma Go_visit_walk:
  "Go_visit sourceText ctx node st =
     add_details st (concat (map (Go_detail sourceText) (Go_walk ctx node (this_nesting st))))"
proof (induction sourceText ctx node st rule: Go_visit.induct)
  case (1 sourceText ctx node st)
  let ?b = "Go_getComplexityIncrement sourceText node (this_nesting st)"
  let ?own = "Go_detail sourceText (ctx, node, this_nesting st)"
  let ?st1 = "add_details st ?own"
  let ?k' = "if Go_increasesNesting node then this_nesting st + 1 else this_nesting st"
  let ?D = "\<lambda>i child k. concat (map (Go_detail sourceText) (Go_walk ((node, i) # ctx) child k))"
  let ?rest = "concat (map (\<lambda>(i, child). if Go_isFunctionDeclaration child then [] else ?D i child ?k')
                 (enumerate 0 (children node)))"
  have st1: "(if ?b > 0 then
               st\<lparr>this_complexity := this_complexity st + ?b,
                  this_details := this_details st @
                    [\<lparr>increment = ?b,
                      reason = Go_getComplexityReason sourceText node,
                      line = row (startPosition node),
                      column = point.column (startPosition node),
                      nesting = this_nesting st\<rparr>]\<rparr>
             else st) = ?st1"
    by (simp add: add_details_def Go_detail_def)
  have walk_eq: "concat (map (Go_detail sourceText) (Go_walk ctx node (this_nesting st))) =
                 ?own @ ?rest"
    unfolding Go_walk_def
    apply (subst walk.simps)
    apply (simp add: concat_map_children)
    done
  have IH: "\<And>i child s. (i, child) \<in> set (enumerate 0 (children node)) \<Longrightarrow>
              \<not> Go_isFunctionDeclaration child \<Longrightarrow>
              Go_visit sourceText ((node, i) # ctx) child s = add_details s (?D i child (this_nesting s))"
    using "1.IH" by (cases "Go_increasesNesting node") simp_all
  have fold_eq: "\<And>s. fold (\<lambda>(i, child) s. if \<not> Go_isFunctionDeclaration child
                   then Go_visit sourceText ((node, i) # ctx) child s else s)
             (enumerate 0 (children node)) s =
           add_details s (concat (map (\<lambda>(i, child).
             if Go_isFunctionDeclaration child then [] else ?D i child (this_nesting s))
             (enumerate 0 (children node))))"
    by (rule fold_children_add_details) (rule IH)
  have "Go_visit sourceText ctx node st = add_details st (?own @ ?rest)"
    apply (subst Go_visit.simps)
    apply (simp only: Let_def st1 fold_eq)
    apply (simp cong: if_cong)
    apply (simp add: add_details_def)
    done
  then show ?case using walk_eq by simp
qed

lemma walk_nesting_ge:
  "(c, n, k) \<in> set (walk isFD incN ctx node k0) \<Longrightarrow> k0 \<le> k"
proof (induction isFD incN ctx node k0 arbitrary: c n k rule: walk.induct)
  case (1 isFD incN ctx node k0)
  from "1.prems" have "(c, n, k) = (ctx, node, k0) \<or>
      (\<exists>(i, child) \<in> set (enumerate 0 (children node)). \<not> isFD child \<and>
          (c, n, k) \<in> set (walk isFD incN ((node, i) # ctx) child (if incN node then k0 + 1 else k0)))"
    by (subst (asm) walk.simps) (auto split: if_splits)
  then show ?case
  proof
    assume "(c, n, k) = (ctx, node, k0)" then show ?thesis by simp
  next
    assume "\<exists>(i, child) \<in> set (enumerate 0 (children node)). \<not> isFD child \<and>
          (c, n, k) \<in> set (walk isFD incN ((node, i) # ctx) child (if incN node then k0 + 1 else k0))"
    then obtain i child where ic: "(i, child) \<in> set (enumerate 0 (children node))" "\<not> isFD child"
      "(c, n, k) \<in> set (walk isFD incN ((node, i) # ctx) child (if incN node then k0 + 1 else k0))"
      by auto
    from "1.IH" [OF ic(1) refl ic(2) ic(3)] show ?thesis by (simp split: if_splits)
  qed
qed

lemma fold_children_append:
  assumes "\<And>i child fs. (i, child) \<in> set xs \<Longrightarrow> V i child fs = fs @ E i child"
  shows "fold (\<lambda>(i, child) fs. V i child fs) xs fs = fs @ concat (map (\<lambda>(i, child). E i child) xs)"
  using assms
proof (induction xs arbitrary: fs)
  case Nil
  then show ?case by simp
next
  case (Cons x xs)
  obtain i child where x: "x = (i, child)" by (cases x)
  have "V i child fs = fs @ E i child" using Cons.prems [of i child fs] x by simp
  moreover have "fold (\<lambda>(i, child) fs. V i child fs) xs (fs @ E i child) =
        (fs @ E i child) @ concat (map (\<lambda>(i, child). E i child) xs)"
    using Cons.IH [of "fs @ E i child"] Cons.prems by simp
  ultimately show ?case using x by simp
qed

lemma concat_map_entries:
  "concat (map F (concat (map (\<lambda>(i, child). W i child) xs))) =
   concat (map (\<lambda>(i, child). concat (map F (W i child))) xs)"
  by (induction xs) auto

lemma CSharp_analyzeFunctions_visit_preorder:
  "CSharp_analyzeFunctions_visit sourceText ctx node fs0 =
     fs0 @ concat (map (CSharp_entries sourceText) (preorder ctx node))"
proof (induction sourceText ctx node fs0 rule: CSharp_analyzeFunctions_visit.induct)
  case (1 sourceText ctx node fs0)
  let ?own = "CSharp_entries sourceText (ctx, node)"
  let ?E = "\<lambda>i child. concat (map (CSharp_entries sourceText) (preorder ((node, i) # ctx) child))"
  have f1: "(if CSharp_isFunctionDeclaration node then
               (case CSharp_analyzeFunction sourceText ctx node of
                  Some result \<Rightarrow> fs0 @ [result]
                | None \<Rightarrow> fs0)
             else fs0) = fs0 @ ?own"
    by (simp add: CSharp_entries_def split: option.splits)
  have IH: "\<And>i child fs. (i, child) \<in> set (enumerate 0 (children node)) \<Longrightarrow>
      CSharp_analyzeFunctions_visit sourceText ((node, i) # ctx) child fs = fs @ ?E i child"
    using "1.IH" by simp
  have fold_eq: "\<And>fs. fold (\<lambda>(i, child) fs. CSharp_analyzeFunctions_visit sourceText ((node, i) # ctx) child fs)
           (enumerate 0 (children node)) fs =
         fs @ concat (map (\<lambda>(i, child). ?E i child) (enumerate 0 (children node)))"
    by (rule fold_children_append) (rule IH)
  have pre: "concat (map (CSharp_entries sourceText) (preorder ctx node)) =
        ?own @ concat (map (\<lambda>(i, child). ?E i child) (enumerate 0 (children node)))"
    by (subst preorder.simps) (simp add: concat_map_entries)
  show ?case
    apply (subst CSharp_analyzeFunctions_visit.simps)
    apply (simp only: Let_def f1 fold_eq pre)
    apply simp
    done
qed

lemma prune_sel [simp]:
  "type (prune isFD n) = type n"
  "startIndex (prune isFD n) = startIndex n"
  "endIndex (prune isFD n) = endIndex n"
  "startPosition (prune isFD n) = startPosition n"
  "endPosition (prune isFD n) = endPosition n"
  "children (prune isFD n) = map (\<lambda>c. if isFD c then empty_node c else prune isFD c) (children n)"
  by (cases n; simp)+

lemma shallow_eq_refl [simp]: "shallow_eq a a"
  by (simp add: shallow_eq_def)

lemma shallow_eq_pr: "shallow_eq c (if isFD c then empty_node c else prune isFD c)"
  by (simp add: shallow_eq_def empty_node_def)

lemma sim_prune: "sim n (prune isFD n)"
  by (simp add: sim_def shallow_eq_def list_all2_map2 empty_node_def list_all2_same)

lemma ctx_sim_refl [simp]: "ctx_sim c c"
  by (simp add: ctx_sim_def list_all2_same sim_def case_prod_unfold)

lemma ctx_sim_Cons: "ctx_sim ((a, i) # c) ((b, j) # c') \<longleftrightarrow> i = j \<and> sim a b \<and> ctx_sim c c'"
  by (simp add: ctx_sim_def)

lemma find_shallow:
  assumes "list_all2 shallow_eq xs ys" and "\<And>a b. shallow_eq a b \<Longrightarrow> P a = P b"
  shows "rel_option shallow_eq (find P xs) (find P ys)"
  using assms by (induction xs ys rule: list_all2_induct) auto

lemma map_shallow:
  assumes "list_all2 shallow_eq xs ys" and "\<And>a b. shallow_eq a b \<Longrightarrow> f a = f b"
  shows "map f xs = map f ys"
  using assms by (induction xs ys rule: list_all2_induct) auto

lemma list_ex_shallow:
  assumes "list_all2 shallow_eq xs ys" and "\<And>a b. shallow_eq a b \<Longrightarrow> P a = P b"
  shows "list_ex P xs = list_ex P ys"
  using assms by (induction xs ys rule: list_all2_induct) auto

lemma CSharp_getBinaryOperator_sim:
  "sim n n' \<Longrightarrow> CSharp_getBinaryOperator src n = CSharp_getBinaryOperator src n'"
proof -
  assume s: "sim n n'"
  let ?P = "\<lambda>child. type child = ''&&'' \<or> type child = ''||'' \<or> type child = ''binary_operator''"
  have "rel_option shallow_eq (find ?P (children n)) (find ?P (children n'))"
    using s by (intro find_shallow) (auto simp: sim_def shallow_eq_def)
  then show ?thesis
    unfolding CSharp_getBinaryOperator_def
    by (cases rule: option.rel_cases) (auto simp: shallow_eq_def)
qed

lemma CSharp_isInPreprocessorBlock_sim:
  "ctx_sim c c' \<Longrightarrow> CSharp_isInPreprocessorBlock c n = CSharp_isInPreprocessorBlock c' n'"
  unfolding ctx_sim_def CSharp_isInPreprocessorBlock_def
  by (induction c c' rule: list_all2_induct) (auto simp: sim_def shallow_eq_def)

lemma CSharp_hasMatchingColonInSiblings_sim:
  assumes "ctx_sim c c'"
  shows "CSharp_hasMatchingColonInSiblings src c n = CSharp_hasMatchingColonInSiblings src c' n'"
proof (cases c)
  case Nil
  with assms show ?thesis by (simp add: ctx_sim_def CSharp_hasMatchingColonInSiblings_def)
next
  case (Cons x xs)
  obtain p i where x: "x = (p, i)" by (cases x)
  from assms Cons x obtain p' ys where c': "c' = (p', i) # ys" and sp: "sim p p'"
    by (auto simp: ctx_sim_def list_all2_Cons1)
  from sp have len: "length (children p) = length (children p')"
    and nth: "\<And>j. j < length (children p) \<Longrightarrow> shallow_eq (children p ! j) (children p' ! j)"
    by (auto simp: sim_def list_all2_conv_all_nth)
  show ?thesis
    unfolding CSharp_hasMatchingColonInSiblings_def Cons x c'
    using len nth
    by (auto simp: list_ex_iff Let_def shallow_eq_def)
qed

lemma CSharp_getComplexityIncrement_sim:
  assumes "ctx_sim c c'" "sim n n'"
  shows "CSharp_getComplexityIncrement src c n k = CSharp_getComplexityIncrement src c' n' k"
proof -
  have t: "type n = type n'" "startIndex n = startIndex n'" "endIndex n = endIndex n'"
    using assms(2) by (auto simp: sim_def shallow_eq_def)
  show ?thesis
    unfolding CSharp_getComplexityIncrement_def CSharp_getComplexityFromErrorNode_def
      CSharp_getComplexityFromMalformedDeclaration_def
    by (simp only: t CSharp_getBinaryOperator_sim [OF assms(2)]
        CSharp_hasMatchingColonInSiblings_sim [OF assms(1), of src n n']
        CSharp_isInPreprocessorBlock_sim [OF assms(1), of n n'])
qed

lemma CSharp_getComplexityReason_sim:
  assumes "ctx_sim c c'" "sim n n'"
  shows "CSharp_getComplexityReason src c n = CSharp_getComplexityReason src c' n'"
proof -
  have t: "type n = type n'" "startIndex n = startIndex n'" "endIndex n = endIndex n'"
    using assms(2) by (auto simp: sim_def shallow_eq_def)
  show ?thesis
    unfolding CSharp_getComplexityReason_def CSharp_getComplexityReasonFromErrorNode_def
      CSharp_getComplexityReasonFromMalformedDeclaration_def
    by (simp only: t CSharp_getBinaryOperator_sim [OF assms(2)]
        CSharp_hasMatchingColonInSiblings_sim [OF assms(1), of src n n']
        CSharp_isInPreprocessorBlock_sim [OF assms(1), of n n'])
qed

lemma CSharp_detail_sim:
  assumes "ctx_sim c c'" "sim n n'"
  shows "CSharp_detail src (c, n, k) = CSharp_detail src (c', n', k)"
proof -
  have t: "startPosition n = startPosition n'"
    using assms(2) by (auto simp: sim_def shallow_eq_def)
  show ?thesis
    unfolding CSharp_detail_def
    by (simp add: t CSharp_getComplexityIncrement_sim [OF assms] CSharp_getComplexityReason_sim [OF assms])
qed

lemma enumerate_map:
  "enumerate k (map f xs) = map (\<lambda>(i, x). (i, f x)) (enumerate k xs)"
  by (induction xs arbitrary: k) auto

lemma concat_map_if:
  "concat (map F (concat (map (\<lambda>x. if P x then [] else W x) xs))) =
   concat (map (\<lambda>x. if P x then [] else concat (map F (W x))) xs)"
  by (induction xs) auto

lemma walk_prune:
  "(\<And>a b. type a = type b \<Longrightarrow> isFD a = isFD b) \<Longrightarrow>
   (\<And>a b. type a = type b \<Longrightarrow> incN a = incN b) \<Longrightarrow>
   (\<And>c c' n n' k. ctx_sim c c' \<Longrightarrow> sim n n' \<Longrightarrow> D (c, n, k) = D (c', n', k)) \<Longrightarrow>
   ctx_sim ctx c' \<Longrightarrow>
   concat (map D (walk isFD incN c' (prune isFD node) k)) =
   concat (map D (walk isFD incN ctx node k))"
proof (induction isFD incN ctx node k arbitrary: c' rule: walk.induct)
  case (1 isFD incN ctx node k)
  note fd = "1.prems"(1) and inc = "1.prems"(2) and D = "1.prems"(3) and cs = "1.prems"(4)
  let ?pr = "\<lambda>c. if isFD c then empty_node c else prune isFD c"
  let ?k' = "if incN node then k + 1 else k"
  have incP: "incN (prune isFD node) = incN node" by (rule inc) simp
  have own: "D (c', prune isFD node, k) = D (ctx, node, k)"
    using D [OF cs sim_prune [of node isFD], of k] by simp
  have kids: "\<And>i child. (i, child) \<in> set (enumerate 0 (children node)) \<Longrightarrow>
      (if isFD (?pr child) then []
       else concat (map D (walk isFD incN ((prune isFD node, i) # c') (?pr child) ?k'))) =
      (if isFD child then []
       else concat (map D (walk isFD incN ((node, i) # ctx) child ?k')))"
  proof -
    fix i child assume ic: "(i, child) \<in> set (enumerate 0 (children node))"
    have tfd: "isFD (?pr child) = isFD child"
      by (rule fd) (simp add: empty_node_def)
    show "(if isFD (?pr child) then []
       else concat (map D (walk isFD incN ((prune isFD node, i) # c') (?pr child) ?k'))) =
      (if isFD child then []
       else concat (map D (walk isFD incN ((node, i) # ctx) child ?k')))"
    proof (cases "isFD child")
      case True
      then show ?thesis using tfd by simp
    next
      case False
      have "ctx_sim ((node, i) # ctx) ((prune isFD node, i) # c')"
        using cs by (simp add: ctx_sim_Cons sim_prune)
      from "1.IH" [OF ic refl False fd inc D this] False tfd show ?thesis by simp
    qed
  qed
  have lhs: "concat (map D (walk isFD incN c' (prune isFD node) k)) =
        D (c', prune isFD node, k) @
        concat (map (\<lambda>(i, child). if isFD (?pr child) then []
             else concat (map D (walk isFD incN ((prune isFD node, i) # c') (?pr child) ?k')))
          (enumerate 0 (children node)))"
    apply (subst walk.simps)
    apply (simp add: incP enumerate_map comp_def case_prod_unfold concat_map_if cong: if_cong)
    done
  have rhs: "concat (map D (walk isFD incN ctx node k)) =
        D (ctx, node, k) @
        concat (map (\<lambda>(i, child). if isFD child then []
             else concat (map D (walk isFD incN ((node, i) # ctx) child ?k')))
          (enumerate 0 (children node)))"
    apply (subst walk.simps)
    apply (simp add: concat_map_children)
    done
  have "map (\<lambda>(i, child). if isFD (?pr child) then []
             else concat (map D (walk isFD incN ((prune isFD node, i) # c') (?pr child) ?k')))
          (enumerate 0 (children node)) =
        map (\<lambda>(i, child). if isFD child then []
             else concat (map D (walk isFD incN ((node, i) # ctx) child ?k')))
          (enumerate 0 (children node))"
  proof (rule map_cong [OF refl])
    fix x assume x: "x \<in> set (enumerate 0 (children node))"
    obtain i child where ic: "x = (i, child)" by (cases x)
    show "(case x of (i, child) \<Rightarrow> if isFD (?pr child) then []
             else concat (map D (walk isFD incN ((prune isFD node, i) # c') (?pr child) ?k'))) =
          (case x of (i, child) \<Rightarrow> if isFD child then []
             else concat (map D (walk isFD incN ((node, i) # ctx) child ?k')))"
      unfolding ic prod.case using kids [of i child] x ic by blast
  qed
  then show ?case by (simp only: lhs rhs own)
qed

lemma Go_analyzeFunctions_visit_preorder:
  "Go_analyzeFunctions_visit sourceText ctx node fs0 =
     fs0 @ concat (map (Go_entries sourceText) (preorder ctx node))"
proof (induction sourceText ctx node fs0 rule: Go_analyzeFunctions_visit.induct)
  case (1 sourceText ctx node fs0)
  let ?own = "Go_entries sourceText (ctx, node)"
  let ?E = "\<lambda>i child. concat (map (Go_entries sourceText) (preorder ((node, i) # ctx) child))"
  have f1: "(if Go_isFunctionDeclaration node then
               (case Go_analyzeFunction sourceText ctx node of
                  Some result \<Rightarrow> fs0 @ [result]
                | None \<Rightarrow> fs0)
             else fs0) = fs0 @ ?own"
    by (simp add: Go_entries_def split: option.splits)
  have IH: "\<And>i child fs. (i, child) \<in> set (enumerate 0 (children node)) \<Longrightarrow>
      Go_analyzeFunctions_visit sourceText ((node, i) # ctx) child fs = fs @ ?E i child"
    using "1.IH" by simp
  have fold_eq: "\<And>fs. fold (\<lambda>(i, child) fs. Go_analyzeFunctions_visit sourceText ((node, i) # ctx) child fs)
           (enumerate 0 (children node)) fs =
         fs @ concat (map (\<lambda>(i, child). ?E i child) (enumerate 0 (children node)))"
    by (rule fold_children_append) (rule IH)
  have pre: "concat (map (Go_entries sourceText) (preorder ctx node)) =
        ?own @ concat (map (\<lambda>(i, child). ?E i child) (enumerate 0 (children node)))"
    by (subst preorder.simps) (simp add: concat_map_entries)
  show ?case
    apply (subst Go_analyzeFunctions_visit.simps)
    apply (simp only: Let_def f1 fold_eq pre)
    apply simp
    done
qed

lemma Go_getBinaryOperator_sim:
  "sim n n' \<Longrightarrow> Go_getBinaryOperator src n = Go_getBinaryOperator src n'"
proof -
  assume s: "sim n n'"
  have "map (\<lambda>child. substring src (startIndex child) (endIndex child)) (children n) =
        map (\<lambda>child. substring src (startIndex child) (endIndex child)) (children n')"
    using s by (intro map_shallow) (auto simp: sim_def shallow_eq_def)
  then show ?thesis by (simp add: Go_getBinaryOperator_def)
qed

lemma Go_isRecoverCall_sim:
  "sim n n' \<Longrightarrow> Go_isRecoverCall src n = Go_isRecoverCall src n'"
proof -
  assume s: "sim n n'"
  let ?P = "\<lambda>child. type child = ''identifier''"
  have "rel_option shallow_eq (find ?P (children n)) (find ?P (children n'))"
    using s by (intro find_shallow) (auto simp: sim_def shallow_eq_def)
  then show ?thesis
    unfolding Go_isRecoverCall_def
    by (cases rule: option.rel_cases) (auto simp: shallow_eq_def)
qed

lemma Go_hasLabel_sim:
  "sim n n' \<Longrightarrow> list_ex (\<lambda>child. type child = ''label_name'') (children n) =
                  list_ex (\<lambda>child. type child = ''label_name'') (children n')"
  by (intro list_ex_shallow) (auto simp: sim_def shallow_eq_def)

lemma Go_getComplexityIncrement_sim:
  assumes "sim n n'"
  shows "Go_getComplexityIncrement src n k = Go_getComplexityIncrement src n' k"
proof -
  have t: "type n = type n'"
    using assms by (auto simp: sim_def shallow_eq_def)
  show ?thesis
    unfolding Go_getComplexityIncrement_def
    by (simp only: t Go_getBinaryOperator_sim [OF assms] Go_isRecoverCall_sim [OF assms]
        Go_hasLabel_sim [OF assms])
qed

lemma Go_getComplexityReason_sim:
  assumes "sim n n'"
  shows "Go_getComplexityReason src n = Go_getComplexityReason src n'"
proof -
  have t: "type n = type n'"
    using assms by (auto simp: sim_def shallow_eq_def)
  show ?thesis
    unfolding Go_getComplexityReason_def
    by (simp only: t Go_getBinaryOperator_sim [OF assms] Go_isRecoverCall_sim [OF assms]
        Go_hasLabel_sim [OF assms])
qed

lemma Go_detail_sim:
  assumes "ctx_sim c c'" "sim n n'"
  shows "Go_detail src (c, n, k) = Go_detail src (c', n', k)"
proof -
  have t: "startPosition n = startPosition n'"
    using assms(2) by (auto simp: sim_def shallow_eq_def)
  show ?thesis
    unfolding Go_detail_def
    by (simp add: t Go_getComplexityIncrement_sim [OF assms(2)] Go_getComplexityReason_sim [OF assms(2)])
qed

lemma CSharp_visit_prune:
  "CSharp_visit src ctx (prune CSharp_isFunctionDeclaration body) st = CSharp_visit src ctx body st"
proof -
  have "concat (map (CSharp_detail src)
          (walk CSharp_isFunctionDeclaration CSharp_increasesNesting ctx
             (prune CSharp_isFunctionDeclaration body) (this_nesting st))) =
        concat (map (CSharp_detail src)
          (walk CSharp_isFunctionDeclaration CSharp_increasesNesting ctx body (this_nesting st)))"
    by (rule walk_prune)
       (simp_all add: CSharp_isFunctionDeclaration_def CSharp_increasesNesting_def CSharp_detail_sim)
  then show ?thesis by (simp add: CSharp_visit_walk CSharp_walk_def)
qed

lemma Go_visit_prune:
  "Go_visit src ctx (prune Go_isFunctionDeclaration body) st = Go_visit src ctx body st"
proof -
  have "concat (map (Go_detail src)
          (walk Go_isFunctionDeclaration Go_increasesNesting ctx
             (prune Go_isFunctionDeclaration body) (this_nesting st))) =
        concat (map (Go_detail src)
          (walk Go_isFunctionDeclaration Go_increasesNesting ctx body (this_nesting st)))"
    by (rule walk_prune)
       (simp_all add: Go_isFunctionDeclaration_def Go_increasesNesting_def Go_detail_sim)
  then show ?thesis by (simp add: Go_visit_walk Go_walk_def)
qed

lemma CSharp_analyzeFunctions_preorder:
  "CSharp_analyzeFunctions parser src =
     concat (map (CSharp_entries src) (preorder [] (parser src)))"
  by (simp add: CSharp_analyzeFunctions_def CSharp_analyzeFunctions_visit_preorder)

lemma Go_analyzeFunctions_preorder:
  "Go_analyzeFunctions parser src =
     concat (map (Go_entries src) (preorder [] (parser src)))"
  by (simp add: Go_analyzeFunctions_def Go_analyzeFunctions_visit_preorder)

lemma get_property_cases:
  "get_property (languageAnalyzers P G) k =
     (if ToPropertyKey k = ''csharp'' then OwnProperty (createCSharpAnalyzer P)
      else if ToPropertyKey k = ''go'' then OwnProperty (createGoAnalyzer G)
      else if ToPropertyKey k \<in> set Object_prototype_names then InheritedProperty (ToPropertyKey k)
      else NoProperty)"
  by (simp add: get_property_def languageAnalyzers_def)

lemma analyzeFile_unknown:
  "ToPropertyKey k \<notin> set [''csharp'', ''go''] \<Longrightarrow> ToPropertyKey k \<notin> set Object_prototype_names \<Longrightarrow>
   MetricsAnalyzerFactory_analyzeFile P G src k = Normal (MetricsArray [])"
  by (simp add: MetricsAnalyzerFactory_analyzeFile_def get_property_cases)

lemma analyzeFile_unknown_examples:
  "MetricsAnalyzerFactory_analyzeFile P G src (Str ''unsupported'') = Normal (MetricsArray [])"
  "MetricsAnalyzerFactory_analyzeFile P G src (Str []) = Normal (MetricsArray [])"
  "MetricsAnalyzerFactory_analyzeFile P G src Null = Normal (MetricsArray [])"
  "MetricsAnalyzerFactory_analyzeFile P G src Undefined = Normal (MetricsArray [])"
  by (simp_all add: MetricsAnalyzerFactory_analyzeFile_def get_property_cases ToPropertyKey_def
      Object_prototype_names_def)

lemma getSupportedLanguages_eq:
  "MetricsAnalyzerFactory_getSupportedLanguages P G = [''csharp'', ''go'']"
  by (simp add: MetricsAnalyzerFactory_getSupportedLanguages_def languageAnalyzers_def)

lemma if_nonempty: "a \<noteq> [] \<Longrightarrow> b \<noteq> [] \<Longrightarrow> (if c then a else b) \<noteq> []"
  by simp

lemma CSharp_getComplexityReason_nonempty: "CSharp_getComplexityReason src c n \<noteq> []"
  unfolding CSharp_getComplexityReason_def CSharp_getComplexityReasonFromErrorNode_def
    CSharp_getComplexityReasonFromMalformedDeclaration_def Let_def
  by (intro if_nonempty) simp_all

lemma Go_getComplexityReason_nonempty: "Go_getComplexityReason src n \<noteq> []"
  unfolding Go_getComplexityReason_def Let_def
  by (intro if_nonempty) simp_all

lemma if_le_1: "a \<le> (1::int) \<Longrightarrow> b \<le> 1 \<Longrightarrow> (if c then a else b) \<le> 1"
  by simp

lemma Go_getComplexityIncrement_le_1: "Go_getComplexityIncrement src n k \<le> 1"
  unfolding Go_getComplexityIncrement_def Let_def
  by (intro if_le_1) simp_all

lemma CSharp_analyzeFunction_Some:
  assumes "CSharp_analyzeFunction src ctx f = Some r"
  shows "\<exists>bc body. CSharp_getFunctionBody ctx f = Some (bc, body) \<and>
           details r = concat (map (CSharp_detail src) (CSharp_walk bc body 0)) \<and>
           complexity r = sum_list (map increment (details r))"
proof (cases "CSharp_getFunctionBody ctx f")
  case None
  with assms show ?thesis by (simp add: CSharp_analyzeFunction_def)
next
  case (Some p)
  obtain bc body where p: "p = (bc, body)" by (cases p)
  from assms Some p show ?thesis
    by (auto simp: CSharp_analyzeFunction_def Let_def CSharp_visit_walk add_details_def
        initial_state_def)
qed

lemma Go_analyzeFunction_Some:
  assumes "Go_analyzeFunction src ctx f = Some r"
  shows "\<exists>bc body. Go_getFunctionBody ctx f = Some (bc, body) \<and>
           details r = concat (map (Go_detail src) (Go_walk bc body 0)) \<and>
           complexity r = sum_list (map increment (details r))"
proof (cases "Go_getFunctionBody ctx f")
  case None
  with assms show ?thesis by (simp add: Go_analyzeFunction_def)
next
  case (Some p)
  obtain bc body where p: "p = (bc, body)" by (cases p)
  from assms Some p show ?thesis
    by (auto simp: Go_analyzeFunction_def Let_def Go_visit_walk add_details_def
        initial_state_def)
qed

lemma CSharp_entries_pair:
  "CSharp_entries src (c, n) =
     (if CSharp_isFunctionDeclaration n then
        (case CSharp_analyzeFunction src c n of Some result \<Rightarrow> [result] | None \<Rightarrow> [])
      else [])"
  unfolding CSharp_entries_def by (simp only: prod.case)

lemma CSharp_entries_results:
  "r \<in> set (CSharp_entries src a) \<Longrightarrow> \<exists>c n. CSharp_analyzeFunction src c n = Some r"
proof -
  assume r: "r \<in> set (CSharp_entries src a)"
  obtain c n where a: "a = (c, n)" by (cases a)
  show ?thesis
  proof (cases "CSharp_analyzeFunction src c n")
    case None
    with r a show ?thesis by (cases "CSharp_isFunctionDeclaration n") (simp_all add: CSharp_entries_pair)
  next
    case (Some r')
    with r a have "r = r'" by (cases "CSharp_isFunctionDeclaration n") (simp_all add: CSharp_entries_pair)
    with Some show ?thesis by blast
  qed
qed

lemma CSharp_analyzeFile_results:
  "r \<in> set (CSharp_analyzeFile parser src) \<Longrightarrow> \<exists>c n. CSharp_analyzeFunction src c n = Some r"
  by (auto simp: CSharp_analyzeFile_def CSharp_analyzeFunctions_preorder dest: CSharp_entries_results)

lemma Go_entries_pair:
  "Go_entries src (c, n) =
     (if Go_isFunctionDeclaration n then
        (case Go_analyzeFunction src c n of Some result \<Rightarrow> [result] | None \<Rightarrow> [])
      else [])"
  unfolding Go_entries_def by (simp only: prod.case)

lemma Go_entries_results:
  "r \<in> set (Go_entries src a) \<Longrightarrow> \<exists>c n. Go_analyzeFunction src c n = Some r"
proof -
  assume r: "r \<in> set (Go_entries src a)"
  obtain c n where a: "a = (c, n)" by (cases a)
  show ?thesis
  proof (cases "Go_analyzeFunction src c n")
    case None
    with r a show ?thesis by (cases "Go_isFunctionDeclaration n") (simp_all add: Go_entries_pair)
  next
    case (Some r')
    with r a have "r = r'" by (cases "Go_isFunctionDeclaration n") (simp_all add: Go_entries_pair)
    with Some show ?thesis by blast
  qed
qed

lemma Go_analyzeFile_results:
  "r \<in> set (Go_analyzeFile parser src) \<Longrightarrow> \<exists>c n. Go_analyzeFunction src c n = Some r"
  by (auto simp: Go_analyzeFile_def Go_analyzeFunctions_preorder dest: Go_entries_results)

lemma CSharp_detail_props:
  assumes "d \<in> set (CSharp_detail src (c, n, k))" "0 \<le> k"
  shows "0 < increment d \<and> reason d \<noteq> [] \<and> nesting d = k \<and>
         increment d = CSharp_getComplexityIncrement src c n k + k"
  using assms by (auto simp: CSharp_detail_def CSharp_getComplexityReason_nonempty split: if_splits)

lemma Go_detail_props:
  assumes "d \<in> set (Go_detail src (c, n, k))"
  shows "increment d = 1 \<and> reason d \<noteq> [] \<and> nesting d = k \<and>
         increment d = Go_getComplexityIncrement src n k"
  using assms Go_getComplexityIncrement_le_1 [of src n k]
  by (auto simp: Go_detail_def Go_getComplexityReason_nonempty split: if_splits)

lemma CSharp_result_props:
  assumes "CSharp_analyzeFunction src ctx f = Some r"
  shows "complexity r = sum_list (map increment (details r))"
    and "d \<in> set (details r) \<Longrightarrow> 0 < increment d \<and> reason d \<noteq> [] \<and> 0 \<le> nesting d"
proof -
  from CSharp_analyzeFunction_Some [OF assms] obtain bc body where
    b: "details r = concat (map (CSharp_detail src) (CSharp_walk bc body 0))"
    and s: "complexity r = sum_list (map increment (details r))" by blast
  show "complexity r = sum_list (map increment (details r))" by (rule s)
  assume "d \<in> set (details r)"
  with b obtain a where a: "a \<in> set (CSharp_walk bc body 0)" and d: "d \<in> set (CSharp_detail src a)"
    by auto
  obtain c n k where acnk: "a = (c, n, k)" by (cases a)
  from a acnk have "0 \<le> k" unfolding CSharp_walk_def by (auto dest: walk_nesting_ge)
  with CSharp_detail_props [of d src c n k] d acnk
  show "0 < increment d \<and> reason d \<noteq> [] \<and> 0 \<le> nesting d" by simp
qed

lemma Go_result_props:
  assumes "Go_analyzeFunction src ctx f = Some r"
  shows "complexity r = sum_list (map increment (details r))"
    and "d \<in> set (details r) \<Longrightarrow> 0 < increment d \<and> reason d \<noteq> [] \<and> 0 \<le> nesting d"
proof -
  from Go_analyzeFunction_Some [OF assms] obtain bc body where
    b: "details r = concat (map (Go_detail src) (Go_walk bc body 0))"
    and s: "complexity r = sum_list (map increment (details r))" by blast
  show "complexity r = sum_list (map increment (details r))" by (rule s)
  assume "d \<in> set (details r)"
  with b obtain a where a: "a \<in> set (Go_walk bc body 0)" and d: "d \<in> set (Go_detail src a)"
    by auto
  obtain c n k where acnk: "a = (c, n, k)" by (cases a)
  from a acnk have "0 \<le> k" unfolding Go_walk_def by (auto dest: walk_nesting_ge)
  with Go_detail_props [of d src c n k] d acnk
  show "0 < increment d \<and> reason d \<noteq> [] \<and> 0 \<le> nesting d" by simp
qed

lemma normalized_props:
  assumes c: "complexity r = sum_list (map increment (details r))"
    and d: "\<And>d. d \<in> set (details r) \<Longrightarrow> 0 < increment d \<and> reason d \<noteq> [] \<and> 0 \<le> nesting d"
    and f: "f = \<lparr>name = name r, complexity = complexity r,
               details = map (\<lambda>detail. \<lparr>increment = increment detail, reason = reason detail,
                  line = line detail + 1, column = column detail + 1, nesting = nesting detail\<rparr>)
                 (details r),
               startLine = startLine r, endLine = endLine r,
               startColumn = startColumn r, endColumn = endColumn r\<rparr>"
  shows "complexity f = sum_list (map increment (details f)) \<and>
         (\<forall>d \<in> set (details f). 0 < increment d \<and> reason d \<noteq> [] \<and> 0 \<le> nesting d \<and>
            1 \<le> line d \<and> 1 \<le> column d)"
  using c d by (auto simp: f comp_def)

lemma if_le_1_cond:
  "(c \<Longrightarrow> a \<le> (1::int)) \<Longrightarrow> (\<not> c \<Longrightarrow> b \<le> 1) \<Longrightarrow> (if c then a else b) \<le> 1"
  by simp

lemma CSharp_getComplexityIncrement_le_1:
  assumes "type n \<noteq> ''ERROR''" "type n \<noteq> ''field_declaration''" "type n \<noteq> ''variable_declaration''"
  shows "CSharp_getComplexityIncrement src c n k \<le> 1"
  unfolding CSharp_getComplexityIncrement_def Let_def
  using assms by (intro if_le_1_cond) simp_all

lemma if_0_or_1:
  "a = (0::int) \<or> a = 1 \<Longrightarrow> b = 0 \<or> b = 1 \<Longrightarrow> (if c then a else b) = 0 \<or> (if c then a else b) = 1"
  by simp

lemma Go_getComplexityIncrement_cases:
  "Go_getComplexityIncrement src n k = 0 \<or> Go_getComplexityIncrement src n k = 1"
  unfolding Go_getComplexityIncrement_def Let_def
  by (intro if_0_or_1) simp_all

lemma CSharp_analyzeFunction_walk:
  "CSharp_analyzeFunction src ctx f =
     (case CSharp_getFunctionBody ctx f of
        None \<Rightarrow> None
      | Some (bodyCtx, body) \<Rightarrow>
          Some \<lparr>name = CSharp_getFunctionName src ctx f,
                complexity =
                  sum_list (map increment (concat (map (CSharp_detail src) (CSharp_walk bodyCtx body 0)))),
                details = concat (map (CSharp_detail src) (CSharp_walk bodyCtx body 0)),
                startLine = row (startPosition f),
                endLine = row (endPosition f),
                startColumn = point.column (startPosition f),
                endColumn = point.column (endPosition f)\<rparr>)"
  by (simp add: CSharp_analyzeFunction_def Let_def CSharp_visit_walk add_details_def
      initial_state_def split: option.splits)

lemma Go_analyzeFunction_walk:
  "Go_analyzeFunction src ctx f =
     (case Go_getFunctionBody ctx f of
        None \<Rightarrow> None
      | Some (bodyCtx, body) \<Rightarrow>
          Some \<lparr>name = Go_getFunctionName src f,
                complexity =
                  sum_list (map increment (concat (map (Go_detail src) (Go_walk bodyCtx body 0)))),
                details = concat (map (Go_detail src) (Go_walk bodyCtx body 0)),
                startLine = row (startPosition f),
                endLine = row (endPosition f),
                startColumn = point.column (startPosition f),
                endColumn = point.column (endPosition f)\<rparr>)"
  by (simp add: Go_analyzeFunction_def Let_def Go_visit_walk add_details_def
      initial_state_def split: option.splits)

lemma CSharp_detail_difference:
  assumes d1: "d1 \<in> set (CSharp_detail src (c1, n1, k1))"
    and d2: "d2 \<in> set (CSharp_detail src (c2, n2, k2))"
    and same: "CSharp_getComplexityIncrement src c1 n1 k1 = CSharp_getComplexityIncrement src c2 n2 k2 \<or>
               type n1 = type n2 \<and> type n1 \<noteq> ''ERROR'' \<and> type n1 \<noteq> ''field_declaration'' \<and>
               type n1 \<noteq> ''variable_declaration''"
  shows "increment d2 - increment d1 = k2 - k1"
proof -
  from d1 have i1: "increment d1 = CSharp_getComplexityIncrement src c1 n1 k1 + k1"
    and p1: "0 < CSharp_getComplexityIncrement src c1 n1 k1"
    by (auto simp: CSharp_detail_def split: if_splits)
  from d2 have i2: "increment d2 = CSharp_getComplexityIncrement src c2 n2 k2 + k2"
    and p2: "0 < CSharp_getComplexityIncrement src c2 n2 k2"
    by (auto simp: CSharp_detail_def split: if_splits)
  from same have "CSharp_getComplexityIncrement src c1 n1 k1 = CSharp_getComplexityIncrement src c2 n2 k2"
  proof
    assume "CSharp_getComplexityIncrement src c1 n1 k1 = CSharp_getComplexityIncrement src c2 n2 k2"
    then show ?thesis .
  next
    assume t: "type n1 = type n2 \<and> type n1 \<noteq> ''ERROR'' \<and> type n1 \<noteq> ''field_declaration'' \<and>
               type n1 \<noteq> ''variable_declaration''"
    then have e: "type n2 = type n1" and t1: "type n1 \<noteq> ''ERROR''"
      and t2: "type n1 \<noteq> ''field_declaration''" and t3: "type n1 \<noteq> ''variable_declaration''"
      by auto
    have "CSharp_getComplexityIncrement src c1 n1 k1 \<le> 1"
      by (rule CSharp_getComplexityIncrement_le_1 [OF t1 t2 t3])
    moreover have "CSharp_getComplexityIncrement src c2 n2 k2 \<le> 1"
      by (rule CSharp_getComplexityIncrement_le_1 [OF t1 [folded e] t2 [folded e] t3 [folded e]])
    ultimately show ?thesis using p1 p2 by simp
  qed
  with i1 i2 show ?thesis by simp
qed

lemma Go_result_increment:
  assumes "r \<in> set (Go_analyzeFile parser src)" and "d \<in> set (details r)"
  shows "increment d = 1 \<and> 0 \<le> nesting d"
proof -
  from Go_analyzeFile_results [OF assms(1)] obtain c n where r: "Go_analyzeFunction src c n = Some r"
    by blast
  from Go_analyzeFunction_Some [OF r] obtain bc body where
    b: "details r = concat (map (Go_detail src) (Go_walk bc body 0))" by blast
  with assms(2) obtain a where a: "a \<in> set (Go_walk bc body 0)" and d: "d \<in> set (Go_detail src a)"
    by auto
  obtain c' n' k where acnk: "a = (c', n', k)" by (cases a)
  from a acnk have "0 \<le> k" unfolding Go_walk_def by (auto dest: walk_nesting_ge)
  with Go_detail_props [of d src c' n' k] d acnk show ?thesis by simp
qed

lemma CSharp_switch_expression_weight:
  "type n = ''switch_expression'' \<Longrightarrow> CSharp_getComplexityIncrement src c n k = 1"
  by (simp add: CSharp_getComplexityIncrement_def)

lemma CSharp_switch_expression_reason:
  "type n = ''switch_expression'' \<Longrightarrow> CSharp_getComplexityReason src c n = ''switch expression''"
  by (simp add: CSharp_getComplexityReason_def)

lemma CSharp_switch_expression_nesting:
  "type n = ''switch_expression'' \<Longrightarrow> \<not> CSharp_increasesNesting n"
  by (simp add: CSharp_increasesNesting_def)

lemma CSharp_entries_expand:
  "CSharp_entries src =
     (\<lambda>(c, n).
        if CSharp_isFunctionDeclaration n then
          (case CSharp_getFunctionBody c n of
             None \<Rightarrow> []
           | Some (bodyCtx, body) \<Rightarrow>
               [\<lparr>name = CSharp_getFunctionName src c n,
                 complexity = this_complexity (CSharp_visit src bodyCtx body initial_state),
                 details = this_details (CSharp_visit src bodyCtx body initial_state),
                 startLine = row (startPosition n),
                 endLine = row (endPosition n),
                 startColumn = point.column (startPosition n),
                 endColumn = point.column (endPosition n)\<rparr>])
        else [])"
  by (auto simp: fun_eq_iff CSharp_entries_def CSharp_analyzeFunction_def Let_def
      split: option.splits)

lemma Go_entries_expand:
  "Go_entries src =
     (\<lambda>(c, n).
        if Go_isFunctionDeclaration n then
          (case Go_getFunctionBody c n of
             None \<Rightarrow> []
           | Some (bodyCtx, body) \<Rightarrow>
               [\<lparr>name = Go_getFunctionName src n,
                 complexity = this_complexity (Go_visit src bodyCtx body initial_state),
                 details = this_details (Go_visit src bodyCtx body initial_state),
                 startLine = row (startPosition n),
                 endLine = row (endPosition n),
                 startColumn = point.column (startPosition n),
                 endColumn = point.column (endPosition n)\<rparr>])
        else [])"
  by (auto simp: fun_eq_iff Go_entries_def Go_analyzeFunction_def Let_def
      split: option.splits)

lemma switch_example_eval:
  "CSharp_analyzeFunction switch_source [] switch_method = Some
     \<lparr>name = ''M'', complexity = 2,
      details =
        [\<lparr>increment = 1, reason = ''switch expression'', line = 0, column = 20, nesting = 0\<rparr>,
         \<lparr>increment = 1, reason = ''ternary operator'', line = 0, column = 32, nesting = 0\<rparr>],
      startLine = 0, endLine = 0, startColumn = 0, endColumn = 47\<rparr>"
  by code_simp

lemma preproc_example_eval:
  "CSharp_analyzeFunctions (\<lambda>_. preproc_root) preproc_source =
     [\<lparr>name = ''M'', complexity = 10,
       details =
         [\<lparr>increment = 1, reason = ''logical operator (in preprocessor block)'',
           line = 3, column = 4, nesting = 0\<rparr>,
          \<lparr>increment = 1, reason = ''binary && operator'', line = 3, column = 13, nesting = 0\<rparr>,
          \<lparr>increment = 1, reason = ''while loop'', line = 4, column = 4, nesting = 0\<rparr>,
          \<lparr>increment = 3, reason = ''logical operator (in preprocessor block)'',
           line = 5, column = 6, nesting = 1\<rparr>,
          \<lparr>increment = 2, reason = ''binary || operator'', line = 5, column = 15, nesting = 1\<rparr>,
          \<lparr>increment = 2, reason = ''binary && operator'', line = 5, column = 15, nesting = 1\<rparr>],
       startLine = 2, endLine = 7, startColumn = 2, endColumn = 3\<rparr>]"
  by code_simp

lemma preproc_and_details:
  "CSharp_detail preproc_source
     (fst (preorder [] preproc_root ! 23), snd (preorder [] preproc_root ! 23), 0) =
     [\<lparr>increment = 1, reason = ''binary && operator'', line = 3, column = 13, nesting = 0\<rparr>]"
  "CSharp_detail preproc_source
     (fst (preorder [] preproc_root ! 42), snd (preorder [] preproc_root ! 42), 1) =
     [\<lparr>increment = 2, reason = ''binary && operator'', line = 5, column = 15, nesting = 1\<rparr>]"
  "type (snd (preorder [] preproc_root ! 23)) = ''binary_expression''"
  "type (snd (preorder [] preproc_root ! 42)) = ''binary_expression''"
  by code_simp+

lemma nested_example_eval:
  "CSharp_analyzeFunctions (\<lambda>_. nested_root) nested_source =
     [\<lparr>name = ''M'', complexity = 1,
       details =
         [\<lparr>increment = 1, reason = ''logical operator (in preprocessor block)'',
           line = 3, column = 4, nesting = 0\<rparr>],
       startLine = 2, endLine = 8, startColumn = 2, endColumn = 3\<rparr>,
      \<lparr>name = ''L'', complexity = 3,
       details =
         [\<lparr>increment = 1, reason = ''if statement'', line = 5, column = 8, nesting = 0\<rparr>,
          \<lparr>increment = 2, reason = ''binary && operator'', line = 5, column = 12, nesting = 1\<rparr>],
       startLine = 4, endLine = 6, startColumn = 6, endColumn = 7\<rparr>]"
  by code_simp

lemma nested_example_eq_eval:
  "CSharp_analyzeFunctions (\<lambda>_. nested_root_eq) nested_source_eq =
     [\<lparr>name = ''M'', complexity = 0, details = [],
       startLine = 2, endLine = 8, startColumn = 2, endColumn = 3\<rparr>,
      \<lparr>name = ''L'', complexity = 1,
       details =
         [\<lparr>increment = 1, reason = ''if statement'', line = 5, column = 8, nesting = 0\<rparr>],
       startLine = 4, endLine = 6, startColumn = 6, endColumn = 7\<rparr>]"
  by code_simp

lemma go_example_eval:
  "Go_analyzeFile (\<lambda>_. go_root) go_source =
     [\<lparr>name = ''F'', complexity = 3,
       details =
        [\<lparr>increment = 1, reason = ''for loop'', line = 0, column = 9, nesting = 0\<rparr>,
         \<lparr>increment = 1, reason = ''if statement'', line = 0, column = 13, nesting = 1\<rparr>,
         \<lparr>increment = 1, reason = ''break statement (nested)'', line = 0, column = 18, nesting = 2\<rparr>],
       startLine = 0, endLine = 0, startColumn = 0, endColumn = 26\<rparr>]"
  by code_simp

lemma switch_node_type: "type switch_node = ''switch_expression''"
  by code_simp

lemma go_factory_eval:
  "MetricsAnalyzerFactory_analyzeFile (\<lambda>_. go_root) (\<lambda>_. go_root) go_source (Str ''go'') =
     Normal (MetricsArray
       [\<lparr>name = ''F'', complexity = 3,
         details =
          [\<lparr>increment = 1, reason = ''for loop'', line = 1, column = 10, nesting = 0\<rparr>,
           \<lparr>increment = 1, reason = ''if statement'', line = 1, column = 14, nesting = 1\<rparr>,
           \<lparr>increment = 1, reason = ''break statement (nested)'', line = 1, column = 19, nesting = 2\<rparr>],
         startLine = 0, endLine = 0, startColumn = 0, endColumn = 26\<rparr>])"
  by (simp add: MetricsAnalyzerFactory_analyzeFile_def get_property_cases ToPropertyKey_def
      createGoAnalyzer_def go_example_eval)

section \<open>The claims\<close>

text \<open>
  Claim C1 says that every detail of the C# scorer has the construct's base weight plus
  the nesting level as its increment and that, consequently, two constructs of the same
  kind recorded at two nesting levels differ by the difference of the levels. The first
  half holds; the second fails for the nodes whose weight is the number of patterns found
  in their text: error nodes and, inside a conditional-compilation block, field and
  variable declarations. In \<open>preproc_source\<close> the two variable declarations are recorded
  with the same reason at the nesting levels 0 and 1, with the increments 1 and 3.
\<close>

theorem declarations_same_kind_differ_by_2:
  "map details (CSharp_analyzeFunctions (\<lambda>_. preproc_root) preproc_source) =
     [[\<lparr>increment = 1, reason = ''logical operator (in preprocessor block)'',
        line = 3, column = 4, nesting = 0\<rparr>,
       \<lparr>increment = 1, reason = ''binary && operator'', line = 3, column = 13, nesting = 0\<rparr>,
       \<lparr>increment = 1, reason = ''while loop'', line = 4, column = 4, nesting = 0\<rparr>,
       \<lparr>increment = 3, reason = ''logical operator (in preprocessor block)'',
        line = 5, column = 6, nesting = 1\<rparr>,
       \<lparr>increment = 2, reason = ''binary || operator'', line = 5, column = 15, nesting = 1\<rparr>,
       \<lparr>increment = 2, reason = ''binary && operator'', line = 5, column = 15, nesting = 1\<rparr>]]"
  by (simp add: preproc_example_eval)

text \<open>
  Claim C1, amended. The details of a C# function are those of the activations of the
  walk of its body from nesting 0, in order, and its complexity is the sum of their
  increments; an activation at nesting \<open>k\<close> records a detail exactly when the rule table
  gives the node a positive weight, with that weight plus \<open>k\<close> as increment and \<open>k\<close> as
  nesting. Two details whose nodes have the same weight, in particular two nodes of the
  same kind other than an error node, a field declaration or a variable declaration,
  recorded at the nesting levels \<open>k1\<close> and \<open>k2\<close>, have increments that differ by
  \<open>k2 - k1\<close>.
\<close>

theorem CSharp_increment_is_weight_plus_nesting:
  "CSharp_analyzeFunction src ctx f =
     (case CSharp_getFunctionBody ctx f of
        None \<Rightarrow> None
      | Some (bodyCtx, body) \<Rightarrow>
          Some \<lparr>name = CSharp_getFunctionName src ctx f,
                complexity =
                  sum_list (map increment (concat (map (CSharp_detail src) (CSharp_walk bodyCtx body 0)))),
                details = concat (map (CSharp_detail src) (CSharp_walk bodyCtx body 0)),
                startLine = row (startPosition f),
                endLine = row (endPosition f),
                startColumn = point.column (startPosition f),
                endColumn = point.column (endPosition f)\<rparr>) \<and>
   CSharp_detail src (c, n, k) =
     (if 0 < CSharp_getComplexityIncrement src c n k
      then [\<lparr>increment = CSharp_getComplexityIncrement src c n k + k,
             reason = CSharp_getComplexityReason src c n,
             line = row (startPosition n),
             column = point.column (startPosition n),
             nesting = k\<rparr>]
      else []) \<and>
   (d1 \<in> set (CSharp_detail src (c1, n1, k1)) \<and> d2 \<in> set (CSharp_detail src (c2, n2, k2)) \<and>
    (CSharp_getComplexityIncrement src c1 n1 k1 = CSharp_getComplexityIncrement src c2 n2 k2 \<or>
     type n1 = type n2 \<and> type n1 \<noteq> ''ERROR'' \<and> type n1 \<noteq> ''field_declaration'' \<and>
     type n1 \<noteq> ''variable_declaration'') \<longrightarrow>
    increment d2 - increment d1 = k2 - k1)"
proof (intro conjI impI)
  show "CSharp_detail src (c, n, k) =
     (if 0 < CSharp_getComplexityIncrement src c n k
      then [\<lparr>increment = CSharp_getComplexityIncrement src c n k + k,
             reason = CSharp_getComplexityReason src c n,
             line = row (startPosition n),
             column = point.column (startPosition n),
             nesting = k\<rparr>]
      else [])"
    by (simp add: CSharp_detail_def)
next
  assume "d1 \<in> set (CSharp_detail src (c1, n1, k1)) \<and> d2 \<in> set (CSharp_detail src (c2, n2, k2)) \<and>
    (CSharp_getComplexityIncrement src c1 n1 k1 = CSharp_getComplexityIncrement src c2 n2 k2 \<or>
     type n1 = type n2 \<and> type n1 \<noteq> ''ERROR'' \<and> type n1 \<noteq> ''field_declaration'' \<and>
     type n1 \<noteq> ''variable_declaration'')"
  then show "increment d2 - increment d1 = k2 - k1"
    using CSharp_detail_difference [of d1 src c1 n1 k1 d2 c2 n2 k2] by blast
qed (rule CSharp_analyzeFunction_walk)

text \<open>
  The two expressions \<open>x && y\<close> of \<open>preproc_source\<close>, the nodes 23 and 42 of its tree in
  pre-order, recorded at the nesting levels 0 and 1, are an instance.
\<close>

theorem CSharp_increment_is_weight_plus_nesting_witness:
  "\<lparr>increment = 1, reason = ''binary && operator'', line = 3, column = 13, nesting = 0\<rparr>
     \<in> set (CSharp_detail preproc_source
              (fst (preorder [] preproc_root ! 23), snd (preorder [] preproc_root ! 23), 0)) \<and>
   \<lparr>increment = 2, reason = ''binary && operator'', line = 5, column = 15, nesting = 1\<rparr>
     \<in> set (CSharp_detail preproc_source
              (fst (preorder [] preproc_root ! 42), snd (preorder [] preproc_root ! 42), 1)) \<and>
   type (snd (preorder [] preproc_root ! 23)) = ''binary_expression'' \<and>
   type (snd (preorder [] preproc_root ! 42)) = ''binary_expression'' \<and>
   increment \<lparr>increment = 2, reason = ''binary && operator'', line = 5, column = 15, nesting = 1\<rparr> -
     increment \<lparr>increment = 1, reason = ''binary && operator'', line = 3, column = 13, nesting = 0\<rparr>
     = (1::int) - 0"
  using CSharp_increment_is_weight_plus_nesting [of preproc_source "[]" preproc_root
      "[]" preproc_root 0
      "\<lparr>increment = 1, reason = ''binary && operator'', line = 3, column = 13, nesting = 0\<rparr>"
      "fst (preorder [] preproc_root ! 23)" "snd (preorder [] preproc_root ! 23)" 0
      "\<lparr>increment = 2, reason = ''binary && operator'', line = 5, column = 15, nesting = 1\<rparr>"
      "fst (preorder [] preproc_root ! 42)" "snd (preorder [] preproc_root ! 42)" 1,
      THEN conjunct2, THEN conjunct2]
  by (simp add: preproc_and_details)

text \<open>
  Claim C2. The details of a Go function are those of the activations of the walk of
  its body from nesting 0, in order; an activation at nesting \<open>k\<close> records a detail
  exactly when the rule table gives the node a positive weight, with that weight alone
  as increment, and the weight is 0 or 1. So every detail that the Go analyzer returns
  has the increment 1, whatever its nesting.
\<close>

theorem Go_increment_is_weight_only:
  "Go_analyzeFunction src ctx f =
     (case Go_getFunctionBody ctx f of
        None \<Rightarrow> None
      | Some (bodyCtx, body) \<Rightarrow>
          Some \<lparr>name = Go_getFunctionName src f,
                complexity =
                  sum_list (map increment (concat (map (Go_detail src) (Go_walk bodyCtx body 0)))),
                details = concat (map (Go_detail src) (Go_walk bodyCtx body 0)),
                startLine = row (startPosition f),
                endLine = row (endPosition f),
                startColumn = point.column (startPosition f),
                endColumn = point.column (endPosition f)\<rparr>) \<and>
   Go_detail src (c, n, k) =
     (if 0 < Go_getComplexityIncrement src n k
      then [\<lparr>increment = Go_getComplexityIncrement src n k,
             reason = Go_getComplexityReason src n,
             line = row (startPosition n),
             column = point.column (startPosition n),
             nesting = k\<rparr>]
      else []) \<and>
   (Go_getComplexityIncrement src n k = 0 \<or> Go_getComplexityIncrement src n k = 1) \<and>
   (r \<in> set (Go_analyzeFile parser src) \<and> d \<in> set (details r) \<longrightarrow>
      increment d = 1 \<and> 0 \<le> nesting d)"
  using Go_result_increment [of r parser src d]
  by (simp add: Go_analyzeFunction_walk [symmetric] Go_detail_def Go_getComplexityIncrement_cases)

text \<open>
  The break statement of \<open>go_root\<close>, recorded at the nesting level 2, is an instance.
\<close>

theorem Go_increment_is_weight_only_witness:
  "\<lparr>name = ''F'', complexity = 3,
     details =
       [\<lparr>increment = 1, reason = ''for loop'', line = 0, column = 9, nesting = 0\<rparr>,
        \<lparr>increment = 1, reason = ''if statement'', line = 0, column = 13, nesting = 1\<rparr>,
        \<lparr>increment = 1, reason = ''break statement (nested)'', line = 0, column = 18, nesting = 2\<rparr>],
     startLine = 0, endLine = 0, startColumn = 0, endColumn = 26\<rparr>
     \<in> set (Go_analyzeFile (\<lambda>_. go_root) go_source) \<and>
   increment \<lparr>increment = 1, reason = ''break statement (nested)'', line = 0, column = 18, nesting = 2\<rparr>
     = (1::int)"
  using Go_increment_is_weight_only [of go_source "[]" go_root "[]" go_root 0
      "\<lparr>name = ''F'', complexity = 3,
        details =
          [\<lparr>increment = 1, reason = ''for loop'', line = 0, column = 9, nesting = 0\<rparr>,
           \<lparr>increment = 1, reason = ''if statement'', line = 0, column = 13, nesting = 1\<rparr>,
           \<lparr>increment = 1, reason = ''break statement (nested)'', line = 0, column = 18, nesting = 2\<rparr>],
        startLine = 0, endLine = 0, startColumn = 0, endColumn = 26\<rparr>"
      "\<lambda>_. go_root"
      "\<lparr>increment = 1, reason = ''break statement (nested)'', line = 0, column = 18, nesting = 2\<rparr>"]
  by (simp add: go_example_eval)

text \<open>
  Claim C3 says that a C# function body made of a try statement with two catch clauses
  has the complexity 3, with three details. For \<open>try_source\<close>, the source of the
  repository's test of this case, the analyzer returns three details and the complexity
  5: the try statement is recorded with the increment 1 at nesting 0 and each catch
  clause, a child of the try statement, with the increment 2 at nesting 1.
\<close>

theorem multiple_catch_blocks_complexity_5:
  "CSharp_analyzeFunctions (\<lambda>_. try_root) try_source =
     [\<lparr>name = ''MultipleCatch'', complexity = 5,
       details =
         [\<lparr>increment = 1, reason = ''try statement'', line = 3, column = 24, nesting = 0\<rparr>,
          \<lparr>increment = 2, reason = ''catch clause'', line = 6, column = 24, nesting = 1\<rparr>,
          \<lparr>increment = 2, reason = ''catch clause'', line = 9, column = 24, nesting = 1\<rparr>],
       startLine = 2, endLine = 12, startColumn = 20, endColumn = 21\<rparr>]"
  by code_simp

text \<open>
  Claim C4 says that a switch expression raises the nesting for the constructs inside
  it in the C# scorer. In \<open>switch_method\<close> the conditional expression in the first arm of
  the switch expression is recorded at nesting 0, the level of the switch expression
  itself, with increment 1.
\<close>

theorem switch_expression_arm_recorded_at_nesting_0:
  "map_option details (CSharp_analyzeFunction switch_source [] switch_method) = Some
     [\<lparr>increment = 1, reason = ''switch expression'', line = 0, column = 20, nesting = 0\<rparr>,
      \<lparr>increment = 1, reason = ''ternary operator'', line = 0, column = 32, nesting = 0\<rparr>]"
  by (simp add: switch_example_eval)

text \<open>
  Claim C4, amended. In the C# scorer a switch expression has the weight 1, so it is
  recorded with the increment 1 plus the current nesting, and it is not one of the kinds
  that raise the nesting: its children are visited with the nesting counter unchanged.
\<close>

theorem switch_expression_scores_without_raising_nesting:
  "type n = ''switch_expression'' \<Longrightarrow>
     \<not> CSharp_increasesNesting n \<and>
     CSharp_visit src ctx n st =
       fold (\<lambda>(i, child) s.
               if \<not> CSharp_isFunctionDeclaration child
               then CSharp_visit src ((n, i) # ctx) child s else s)
         (enumerate 0 (children n))
         (st\<lparr>this_complexity := this_complexity st + (1 + this_nesting st),
             this_details := this_details st @
               [\<lparr>increment = 1 + this_nesting st, reason = ''switch expression'',
                 line = row (startPosition n), column = point.column (startPosition n),
                 nesting = this_nesting st\<rparr>]\<rparr>) \<and>
     CSharp_walk ctx n k =
       (ctx, n, k) #
       concat (map (\<lambda>(i, child).
                      if CSharp_isFunctionDeclaration child then []
                      else CSharp_walk ((n, i) # ctx) child k)
                 (enumerate 0 (children n)))"
proof (intro conjI)
  assume t: "type n = ''switch_expression''"
  show "\<not> CSharp_increasesNesting n" by (rule CSharp_switch_expression_nesting [OF t])
  show "CSharp_visit src ctx n st =
       fold (\<lambda>(i, child) s.
               if \<not> CSharp_isFunctionDeclaration child
               then CSharp_visit src ((n, i) # ctx) child s else s)
         (enumerate 0 (children n))
         (st\<lparr>this_complexity := this_complexity st + (1 + this_nesting st),
             this_details := this_details st @
               [\<lparr>increment = 1 + this_nesting st, reason = ''switch expression'',
                 line = row (startPosition n), column = point.column (startPosition n),
                 nesting = this_nesting st\<rparr>]\<rparr>)"
    by (subst CSharp_visit.simps)
       (simp add: Let_def CSharp_switch_expression_weight [OF t]
          CSharp_switch_expression_reason [OF t] CSharp_switch_expression_nesting [OF t])
  show "CSharp_walk ctx n k =
       (ctx, n, k) #
       concat (map (\<lambda>(i, child).
                      if CSharp_isFunctionDeclaration child then []
                      else CSharp_walk ((n, i) # ctx) child k)
                 (enumerate 0 (children n)))"
    unfolding CSharp_walk_def
    by (subst walk.simps) (simp add: CSharp_switch_expression_nesting [OF t])
qed

text \<open>The switch expression of \<open>switch_method\<close> is an instance.\<close>

theorem switch_expression_scores_without_raising_nesting_witness:
  "type switch_node = ''switch_expression'' \<and>
   \<not> CSharp_increasesNesting switch_node \<and>
   CSharp_walk [] switch_node 0 =
     ([], switch_node, 0) #
     concat (map (\<lambda>(i, child).
                    if CSharp_isFunctionDeclaration child then []
                    else CSharp_walk [(switch_node, i)] child 0)
               (enumerate 0 (children switch_node)))"
  using switch_expression_scores_without_raising_nesting [of switch_node switch_source "[]"
      initial_state 0]
  by (simp add: switch_node_type)

text \<open>
  Claim C5 says that nothing inside a nested function declaration reaches the total or
  the details of the enclosing function, and that the nested declaration is reported on
  its own. The walk of a body does not enter a nested declaration: it gives the same
  state when the subtree below every nested declaration is emptied and the source text
  is kept. Every declaration of the tree that has a body, nested or not, is reported in
  pre-order with the name, the span and the score of the walk of its own body from the
  reset state. But the weight of a variable declaration in a conditional-compilation
  block is counted in its source text, and that text contains the declarations nested
  in it: in \<open>nested_source\<close> the logical operator inside the local function \<open>L\<close> is
  scored in \<open>L\<close> and once more in the enclosing method \<open>M\<close>, whose complexity is 1, and in
  \<open>nested_source_eq\<close>, where only that operator differs, the complexity of \<open>M\<close> is 0.
\<close>

theorem nested_declaration_text_scored_in_enclosing_function:
  "CSharp_visit src ctx (prune CSharp_isFunctionDeclaration body) st = CSharp_visit src ctx body st \<and>
   Go_visit src ctx (prune Go_isFunctionDeclaration body) st = Go_visit src ctx body st \<and>
   CSharp_analyzeFunctions parser src =
     concat (map (\<lambda>(c, n).
                    if CSharp_isFunctionDeclaration n then
                      (case CSharp_getFunctionBody c n of
                         None \<Rightarrow> []
                       | Some (bodyCtx, body) \<Rightarrow>
                           [\<lparr>name = CSharp_getFunctionName src c n,
                             complexity = this_complexity (CSharp_visit src bodyCtx body initial_state),
                             details = this_details (CSharp_visit src bodyCtx body initial_state),
                             startLine = row (startPosition n),
                             endLine = row (endPosition n),
                             startColumn = point.column (startPosition n),
                             endColumn = point.column (endPosition n)\<rparr>])
                    else [])
               (preorder [] (parser src))) \<and>
   Go_analyzeFunctions parser src =
     concat (map (\<lambda>(c, n).
                    if Go_isFunctionDeclaration n then
                      (case Go_getFunctionBody c n of
                         None \<Rightarrow> []
                       | Some (bodyCtx, body) \<Rightarrow>
                           [\<lparr>name = Go_getFunctionName src n,
                             complexity = this_complexity (Go_visit src bodyCtx body initial_state),
                             details = this_details (Go_visit src bodyCtx body initial_state),
                             startLine = row (startPosition n),
                             endLine = row (endPosition n),
                             startColumn = point.column (startPosition n),
                             endColumn = point.column (endPosition n)\<rparr>])
                    else [])
               (preorder [] (parser src))) \<and>
   CSharp_analyzeFunctions (\<lambda>_. nested_root) nested_source =
     [\<lparr>name = ''M'', complexity = 1,
       details =
         [\<lparr>increment = 1, reason = ''logical operator (in preprocessor block)'',
           line = 3, column = 4, nesting = 0\<rparr>],
       startLine = 2, endLine = 8, startColumn = 2, endColumn = 3\<rparr>,
      \<lparr>name = ''L'', complexity = 3,
       details =
         [\<lparr>increment = 1, reason = ''if statement'', line = 5, column = 8, nesting = 0\<rparr>,
          \<lparr>increment = 2, reason = ''binary && operator'', line = 5, column = 12, nesting = 1\<rparr>],
       startLine = 4, endLine = 6, startColumn = 6, endColumn = 7\<rparr>] \<and>
   CSharp_analyzeFunctions (\<lambda>_. nested_root_eq) nested_source_eq =
     [\<lparr>name = ''M'', complexity = 0, details = [],
       startLine = 2, endLine = 8, startColumn = 2, endColumn = 3\<rparr>,
      \<lparr>name = ''L'', complexity = 1,
       details =
         [\<lparr>increment = 1, reason = ''if statement'', line = 5, column = 8, nesting = 0\<rparr>],
       startLine = 4, endLine = 6, startColumn = 6, endColumn = 7\<rparr>]"
  by (intro conjI;
      (rule CSharp_visit_prune Go_visit_prune nested_example_eval nested_example_eq_eval |
       simp only: CSharp_analyzeFunctions_preorder Go_analyzeFunctions_preorder
         CSharp_entries_expand Go_entries_expand))

text \<open>
  Claim C6. The wrappers of the factory return the analyzer's list with 1 added to the
  line and to the column of every detail, and with nothing else changed: name,
  complexity, each detail's increment, reason and nesting, and the four span fields of
  the function are those of the analyzer's output, for every input.
\<close>

theorem normalizer_shifts_detail_positions_only:
  "createCSharpAnalyzer parser src =
     map (\<lambda>f. f\<lparr>details := map (\<lambda>d. d\<lparr>line := line d + 1, column := column d + 1\<rparr>) (details f)\<rparr>)
       (CSharp_analyzeFile parser src) \<and>
   createGoAnalyzer parser src =
     map (\<lambda>f. f\<lparr>details := map (\<lambda>d. d\<lparr>line := line d + 1, column := column d + 1\<rparr>) (details f)\<rparr>)
       (Go_analyzeFile parser src)"
  by (simp add: createCSharpAnalyzer_def createGoAnalyzer_def Let_def)

text \<open>
  Claim C7 says that \<open>analyzeFile\<close> returns the empty sequence and never throws for every
  identifier that is not a supported language. For the identifier \<open>__proto__\<close>, which
  is not supported, the property read yields the prototype object, the guard
  \<open>if (analyzer)\<close> is passed and the call throws.
\<close>

theorem analyzeFile_throws_on_inherited_name:
  "''__proto__'' \<notin> set (MetricsAnalyzerFactory_getSupportedLanguages P G) \<and>
   MetricsAnalyzerFactory_analyzeFile P G src (Str ''__proto__'') = Throw TypeError"
  by (simp add: MetricsAnalyzerFactory_analyzeFile_def get_property_cases ToPropertyKey_def
      Object_prototype_names_def call_inherited_def getSupportedLanguages_eq)

text \<open>
  Claim C8. A located declaration yields no result exactly when no body is found for it
  (no block or expression body among its children and, for C#, no substitute among the
  following siblings), and the result of a file is the concatenation over the nodes of
  the tree of what each declaration yields: a declaration without a body contributes
  nothing, and nothing is raised for it.
\<close>

theorem bodyless_declarations_omitted:
  "(CSharp_analyzeFunction src ctx node = None) = (CSharp_getFunctionBody ctx node = None) \<and>
   (Go_analyzeFunction src ctx node = None) = (Go_getFunctionBody ctx node = None) \<and>
   CSharp_analyzeFile parser src =
     concat (map (\<lambda>(c, n). if CSharp_isFunctionDeclaration n
                              then (case CSharp_analyzeFunction src c n of None \<Rightarrow> [] | Some r \<Rightarrow> [r])
                              else [])
               (preorder [] (parser src))) \<and>
   Go_analyzeFile parser src =
     concat (map (\<lambda>(c, n). if Go_isFunctionDeclaration n
                              then (case Go_analyzeFunction src c n of None \<Rightarrow> [] | Some r \<Rightarrow> [r])
                              else [])
               (preorder [] (parser src)))"
proof -
  have a: "(CSharp_analyzeFunction src ctx node = None) = (CSharp_getFunctionBody ctx node = None)"
    by (simp add: CSharp_analyzeFunction_def Let_def split: option.splits)
  have b: "(Go_analyzeFunction src ctx node = None) = (Go_getFunctionBody ctx node = None)"
    by (simp add: Go_analyzeFunction_def Let_def split: option.splits)
  have c: "CSharp_entries src = (\<lambda>(c, n). if CSharp_isFunctionDeclaration n
                              then (case CSharp_analyzeFunction src c n of None \<Rightarrow> [] | Some r \<Rightarrow> [r])
                              else [])"
    by (auto simp: CSharp_entries_def fun_eq_iff split: option.splits)
  have d: "Go_entries src = (\<lambda>(c, n). if Go_isFunctionDeclaration n
                              then (case Go_analyzeFunction src c n of None \<Rightarrow> [] | Some r \<Rightarrow> [r])
                              else [])"
    by (auto simp: Go_entries_def fun_eq_iff split: option.splits)
  show ?thesis
    using a b
    by (simp add: CSharp_analyzeFile_def Go_analyzeFile_def CSharp_analyzeFunctions_preorder
        Go_analyzeFunctions_preorder c [symmetric] d [symmetric])
qed

text \<open>
  Claim C9. Every function that \<open>analyzeFile\<close> returns, for any language identifier and
  any source, has a complexity equal to the sum of the increments of its details, and
  each of its details has a positive increment, a reason that is not empty, a nesting
  that is not negative, and a line and a column of at least 1.
\<close>

theorem analyzeFile_detail_invariants:
  assumes "MetricsAnalyzerFactory_analyzeFile P G src languageId = Normal (MetricsArray fs)"
    and "f \<in> set fs"
  shows "complexity f = sum_list (map increment (details f)) \<and>
         (\<forall>d \<in> set (details f). 0 < increment d \<and> reason d \<noteq> [] \<and> 0 \<le> nesting d \<and>
            1 \<le> line d \<and> 1 \<le> column d)"
proof -
  consider (cs) "fs = createCSharpAnalyzer P src" | (go) "fs = createGoAnalyzer G src" | (none) "fs = []"
    using assms(1)
    by (auto simp: MetricsAnalyzerFactory_analyzeFile_def get_property_cases call_inherited_def
        split: if_splits)
  then show ?thesis
  proof cases
    case cs
    with assms(2) obtain r where r: "r \<in> set (CSharp_analyzeFile P src)"
      and f: "f = \<lparr>name = name r, complexity = complexity r,
               details = map (\<lambda>detail. \<lparr>increment = increment detail, reason = reason detail,
                  line = line detail + 1, column = column detail + 1, nesting = nesting detail\<rparr>)
                 (details r),
               startLine = startLine r, endLine = endLine r,
               startColumn = startColumn r, endColumn = endColumn r\<rparr>"
      by (auto simp: createCSharpAnalyzer_def Let_def)
    from CSharp_analyzeFile_results [OF r] obtain c n where "CSharp_analyzeFunction src c n = Some r"
      by blast
    from normalized_props [OF CSharp_result_props(1) [OF this] CSharp_result_props(2) [OF this] f]
    show ?thesis by blast
  next
    case go
    with assms(2) obtain r where r: "r \<in> set (Go_analyzeFile G src)"
      and f: "f = \<lparr>name = name r, complexity = complexity r,
               details = map (\<lambda>detail. \<lparr>increment = increment detail, reason = reason detail,
                  line = line detail + 1, column = column detail + 1, nesting = nesting detail\<rparr>)
                 (details r),
               startLine = startLine r, endLine = endLine r,
               startColumn = startColumn r, endColumn = endColumn r\<rparr>"
      by (auto simp: createGoAnalyzer_def Let_def)
    from Go_analyzeFile_results [OF r] obtain c n where "Go_analyzeFunction src c n = Some r"
      by blast
    from normalized_props [OF Go_result_props(1) [OF this] Go_result_props(2) [OF this] f]
    show ?thesis by blast
  next
    case none
    with assms(2) show ?thesis by simp
  qed
qed

text \<open>The result of the factory for \<open>go_root\<close> is an instance.\<close>

theorem analyzeFile_detail_invariants_witness:
  "MetricsAnalyzerFactory_analyzeFile (\<lambda>_. go_root) (\<lambda>_. go_root) go_source (Str ''go'') =
     Normal (MetricsArray
       [\<lparr>name = ''F'', complexity = 3,
         details =
          [\<lparr>increment = 1, reason = ''for loop'', line = 1, column = 10, nesting = 0\<rparr>,
           \<lparr>increment = 1, reason = ''if statement'', line = 1, column = 14, nesting = 1\<rparr>,
           \<lparr>increment = 1, reason = ''break statement (nested)'', line = 1, column = 19, nesting = 2\<rparr>],
         startLine = 0, endLine = 0, startColumn = 0, endColumn = 26\<rparr>]) \<and>
   (3::int) = sum_list (map increment
          [\<lparr>increment = 1, reason = ''for loop'', line = 1, column = 10, nesting = 0\<rparr>,
           \<lparr>increment = 1, reason = ''if statement'', line = 1, column = 14, nesting = 1\<rparr>,
           \<lparr>increment = 1, reason = ''break statement (nested)'', line = 1, column = 19, nesting = 2\<rparr>])"
  using analyzeFile_detail_invariants [of "\<lambda>_. go_root" "\<lambda>_. go_root" go_source "Str ''go''"
      "[\<lparr>name = ''F'', complexity = 3,
         details =
          [\<lparr>increment = 1, reason = ''for loop'', line = 1, column = 10, nesting = 0\<rparr>,
           \<lparr>increment = 1, reason = ''if statement'', line = 1, column = 14, nesting = 1\<rparr>,
           \<lparr>increment = 1, reason = ''break statement (nested)'', line = 1, column = 19, nesting = 2\<rparr>],
         startLine = 0, endLine = 0, startColumn = 0, endColumn = 26\<rparr>]"
      "\<lparr>name = ''F'', complexity = 3,
         details =
          [\<lparr>increment = 1, reason = ''for loop'', line = 1, column = 10, nesting = 0\<rparr>,
           \<lparr>increment = 1, reason = ''if statement'', line = 1, column = 14, nesting = 1\<rparr>,
           \<lparr>increment = 1, reason = ''break statement (nested)'', line = 1, column = 19, nesting = 2\<rparr>],
         startLine = 0, endLine = 0, startColumn = 0, endColumn = 26\<rparr>"]
  by (simp add: go_factory_eval)

text \<open>
  Claim C10 says that the supported identifiers are csharp and go, in this order, and
  that every other identifier yields the empty result. The list and the dispatch of the
  two identifiers are as claimed; the identifier \<open>constructor\<close> is not in the list, and
  \<open>analyzeFile\<close> returns for it a wrapper object of the source text.
\<close>

theorem supported_languages_and_inherited_dispatch:
  "MetricsAnalyzerFactory_getSupportedLanguages P G = [''csharp'', ''go''] \<and>
   MetricsAnalyzerFactory_analyzeFile P G src (Str ''csharp'') =
     Normal (MetricsArray (createCSharpAnalyzer P src)) \<and>
   MetricsAnalyzerFactory_analyzeFile P G src (Str ''go'') =
     Normal (MetricsArray (createGoAnalyzer G src)) \<and>
   MetricsAnalyzerFactory_analyzeFile P G src (Str ''constructor'') = Normal (StringObject src)"
  by (simp add: MetricsAnalyzerFactory_analyzeFile_def get_property_cases ToPropertyKey_def
      Object_prototype_names_def call_inherited_def getSupportedLanguages_eq)

end
